theory Spec2Isabelle
  imports Main "HOL-Library.AList"
begin

section \<open>Values, objects and exceptions of the conductor's compute-task manager\<close>

text \<open>
  The development embeds \<^verbatim>\<open>nova/conductor/manager.py\<close>, class
  \<^verbatim>\<open>ComputeTaskManager\<close>. Python values that travel through dictionaries are a
  small universe; a dictionary is an association list in the order the source writes its
  keys; \<^verbatim>\<open>None\<close> of an optional string is \<open>None\<close>.
\<close>

record Flavor =
  flavor_id :: int
  flavor_name :: string

datatype pyval =
    VNone
  | VStr string
  | VInt int
  | VBool bool
  | VList "pyval list"
  | VDict "(string \<times> pyval) list"
  | VFlavor Flavor

type_synonym pydict = "(string \<times> pyval) list"

text \<open>Python truthiness, as \<^verbatim>\<open>if x\<close> and \<^verbatim>\<open>if not x\<close> read it.\<close>

fun truthy :: "pyval \<Rightarrow> bool" where
  "truthy VNone = False"
| "truthy (VStr s) = (s \<noteq> [])"
| "truthy (VInt n) = (n \<noteq> 0)"
| "truthy (VBool b) = b"
| "truthy (VList xs) = (xs \<noteq> [])"
| "truthy (VDict d) = (d \<noteq> [])"
| "truthy (VFlavor f) = True"

definition truthy_str :: "string option \<Rightarrow> bool" where
  "truthy_str s = (case s of None \<Rightarrow> False | Some t \<Rightarrow> t \<noteq> [])"

definition of_str :: "string option \<Rightarrow> pyval" where
  "of_str s = (case s of None \<Rightarrow> VNone | Some t \<Rightarrow> VStr t)"

subsection \<open>State names\<close>

definition ACTIVE :: string where
  \<comment> \<open>Modelled from the spec: the constant ACTIVE of nova.compute.vm_states, a module the
      manager imports and the sources do not include.\<close>
  "ACTIVE = ''active''"

definition ERROR :: string where
  \<comment> \<open>Modelled from the spec: the constant ERROR of nova.compute.vm_states.\<close>
  "ERROR = ''error''"

definition STOPPED :: string where
  \<comment> \<open>Modelled from the spec: the constant STOPPED of nova.compute.vm_states.\<close>
  "STOPPED = ''stopped''"

definition RESIZED :: string where
  \<comment> \<open>Modelled from the spec: the constant RESIZED of nova.compute.vm_states.\<close>
  "RESIZED = ''resized''"

definition SHELVED :: string where
  \<comment> \<open>Modelled from the spec: the constant SHELVED of nova.compute.vm_states.\<close>
  "SHELVED = ''shelved''"

definition SHELVED_OFFLOADED :: string where
  \<comment> \<open>Modelled from the spec: the constant SHELVED_OFFLOADED of nova.compute.vm_states.\<close>
  "SHELVED_OFFLOADED = ''shelved_offloaded''"

definition MIGRATING :: string where
  \<comment> \<open>Modelled from the spec: the constant MIGRATING of nova.compute.task_states.\<close>
  "MIGRATING = ''migrating''"

definition POWERING_ON :: string where
  \<comment> \<open>Modelled from the spec: the constant POWERING_ON of nova.compute.task_states.\<close>
  "POWERING_ON = ''powering-on''"

definition UNSHELVING :: string where
  \<comment> \<open>Modelled from the spec: the constant UNSHELVING of nova.compute.task_states.\<close>
  "UNSHELVING = ''unshelving''"

subsection \<open>Objects\<close>

record Instance =
  uuid :: string
  vm_state :: "string option"
  task_state :: "string option"
  host :: "string option"
  instance_type_id :: int
  flavor :: "Flavor option"  \<comment> \<open>\<open>None\<close>: \<^verbatim>\<open>obj_attr_is_set('flavor')\<close> is false\<close>
  system_metadata :: "(string \<times> string) list"

record Migration =
  dest_compute :: "string option"
  status :: string
  instance_uuid :: string
  source_compute :: "string option"
  migration_type :: string
  old_instance_type_id :: int
  new_instance_type_id :: int

record host_state =
  hs_host :: string
  hs_nodename :: string
  hs_limits :: pyval

record scheduler_hint =
  sh_host :: "string option"  \<comment> \<open>\<^verbatim>\<open>scheduler_hint.get("host")\<close>\<close>
  sh_filter_properties :: "pydict option"  \<comment> \<open>\<open>None\<close>: the key is absent\<close>

subsection \<open>Exceptions\<close>

text \<open>
  An exception is its class and the keyword arguments it was built with. \<open>OtherException\<close>
  stands for every class below \<^verbatim>\<open>Exception\<close> that the manager does not name. An
  \<^verbatim>\<open>except\<close> clause catches the instances of a class and of its subclasses; the class
  hierarchy is defined by \<^verbatim>\<open>nova.exception\<close>, another module, and is a parameter (see
  \<open>superclasses\<close> and \<open>isinstance\<close> below).
\<close>

datatype exn_class =
    NoValidHost
  | ComputeServiceUnavailable
  | InvalidHypervisorType
  | InvalidCPUInfo
  | UnableToMigrateToSelf
  | DestinationHypervisorTooOld
  | InvalidLocalStorage
  | InvalidSharedStorage
  | HypervisorUnavailable
  | InstanceInvalidState
  | MigrationPreCheckError
  | LiveMigrationWithOldNovaNotSafe
  | UnsupportedPolicyException
  | MigrationError
  | NotImplementedError
  | InstanceNotFound
  | InstanceInfoCacheNotFound
  | ImageNotFound
  | UnshelveException
  | KeyError
  | IndexError
  | TypeError
  | AttributeError
  | ExpectedException
  | OtherException string

datatype exn =
    Exn exn_class "(string \<times> string) list"
  | Expected exn
      \<comment> \<open>\<^verbatim>\<open>oslo_messaging.ExpectedException\<close>, which keeps the exception it was raised
          for\<close>

fun class_of :: "exn \<Rightarrow> exn_class" where
  "class_of (Exn c kwargs) = c"
| "class_of (Expected e) = ExpectedException"

fun builtin_class :: "exn_class \<Rightarrow> bool" where
  \<comment> \<open>the classes that do not come from \<^verbatim>\<open>nova.exception\<close>: Python's own, and the
      messaging library's wrapper\<close>
  "builtin_class NotImplementedError = True"
| "builtin_class KeyError = True"
| "builtin_class IndexError = True"
| "builtin_class TypeError = True"
| "builtin_class AttributeError = True"
| "builtin_class ExpectedException = True"
| "builtin_class c = False"

subsection \<open>Effects\<close>

text \<open>
  Every call that leaves the manager and changes or queries a collaborator the claims
  speak about is an event; the world holds the events in the order they happened. The
  world also holds the dictionary objects that carry filter properties, by address, since
  \<^verbatim>\<open>build_instances\<close> copies one and updates the copy in place.
\<close>

type_synonym updates = "(string \<times> string option) list"

datatype requested_networks =
    NetworksNone
  | NetworkTuples "pyval list"  \<comment> \<open>the old shape: a list of tuples\<close>
  | NetworkRequestList "pyval list"

record build_call =
  b_instance :: Instance
  b_host :: string
  b_image :: pyval
  b_request_spec :: pydict
  b_filter_properties :: pydict
  b_admin_password :: pyval
  b_injected_files :: pyval
  b_requested_networks :: requested_networks
  b_security_groups :: pyval
  b_block_device_mapping :: pyval
  b_node :: string
  b_limits :: pyval

record rebuild_call =
  r_instance :: Instance
  r_new_pass :: pyval
  r_injected_files :: pyval
  r_image_ref :: pyval
  r_orig_image_ref :: pyval
  r_orig_sys_metadata :: pyval
  r_bdms :: pyval
  r_recreate :: bool
  r_on_shared_storage :: bool
  r_preserve_ephemeral :: bool
  r_host :: "string option"

datatype event =
    FlavorGetById pyval
  | InstanceFromDbObject pydict
  | MigrationCreate Migration
  | MigrationSave Migration
  | SetVmStateAndNotify string string string updates exn pydict
      \<comment> \<open>instance uuid, service, method, updates, exception, request spec\<close>
  | InstanceSave Instance "string option"
      \<comment> \<open>the object saved, and \<^verbatim>\<open>expected_task_state\<close> when given\<close>
  | SelectDestinations pydict pydict
  | ImageGet string
  | TaskRpc string pydict
      \<comment> \<open>a remote call a task object issues: its name and arguments\<close>
  | Rpc_start_instance Instance
  | Rpc_unshelve_instance Instance string pyval pydict string
      \<comment> \<open>instance, host, image, filter properties, node\<close>
  | Rpc_build_and_run_instance build_call
  | Rpc_rebuild_instance rebuild_call
  | NotifyUsage Instance string
  | EventStart string string
  | EventFinish string string "exn option"
  | Log string string  \<comment> \<open>level and message template\<close>

fun is_dispatch :: "event \<Rightarrow> bool" where
  "is_dispatch (TaskRpc n a) = True"
| "is_dispatch (Rpc_start_instance i) = True"
| "is_dispatch (Rpc_unshelve_instance i h im fp n) = True"
| "is_dispatch (Rpc_build_and_run_instance c) = True"
| "is_dispatch (Rpc_rebuild_instance c) = True"
| "is_dispatch e = False"

record world =
  trace :: "event list"
  fp_store :: "nat \<Rightarrow> pydict"
  fp_next :: nat

definition emit :: "event \<Rightarrow> world \<Rightarrow> world" where
  "emit e w = w\<lparr>trace := trace w @ [e]\<rparr>"

definition emits :: "event list \<Rightarrow> world \<Rightarrow> world" where
  "emits es w = w\<lparr>trace := trace w @ es\<rparr>"

subsection \<open>Collaborators\<close>

text \<open>
  The task classes, the scheduler client and its utilities, the image service and the
  object layer are other modules; the manager only calls them. Each is a parameter: what
  it returns or raises for the arguments the manager hands it. A run of a task object is
  the remote calls it issued and the exception it raised, if any; the manager reads its
  instance and its migration record afterwards as it wrote them itself.

  The calls the manager makes outside every \<^verbatim>\<open>try\<close> block and inside its handlers
  (creating and saving a record, saving an instance, setting the state and notifying, the
  casts to the compute hosts, the usage notification) are events that return: an exception
  from one of them would leave the manager unhandled, and no claim speaks about that.
  Translation of messages is the identity.
\<close>

record task_run =
  task_effects :: "event list"
  task_raised :: "exn option"

record env =
  superclasses :: "exn_class \<Rightarrow> exn_class list"
    \<comment> \<open>the classes of \<^verbatim>\<open>nova.exception\<close> a class of that module inherits from\<close>
  text_type :: "exn \<Rightarrow> string"  \<comment> \<open>\<^verbatim>\<open>six.text_type(ex)\<close>\<close>
  flavor_get_by_id :: "pyval \<Rightarrow> exn + Flavor"
  instance_from_db_object :: "pydict \<Rightarrow> Instance"
  get_image_from_system_metadata :: "(string \<times> string) list \<Rightarrow> pyval"
  build_request_spec :: "pyval \<Rightarrow> Instance list \<Rightarrow> Flavor option \<Rightarrow> pydict"
  live_task :: "Instance \<Rightarrow> string option \<Rightarrow> pyval \<Rightarrow> pyval \<Rightarrow> Migration \<Rightarrow> task_run"
  cold_task :: "Instance \<Rightarrow> Flavor \<Rightarrow> pydict \<Rightarrow> pydict \<Rightarrow> pyval \<Rightarrow> bool \<Rightarrow> task_run"
  setup_instance_group :: "pydict \<Rightarrow> pydict \<Rightarrow> exn + pydict"
  populate_retry :: "pydict \<Rightarrow> string \<Rightarrow> exn + pydict"
  select_destinations :: "pydict \<Rightarrow> pydict \<Rightarrow> exn + host_state list"
  populate_filter_properties :: "pydict \<Rightarrow> host_state \<Rightarrow> pydict"
  refresh :: "Instance \<Rightarrow> exn + Instance"
  bdms_get_by_instance_uuid :: "string \<Rightarrow> pyval"
  image_get :: "string \<Rightarrow> exn + pyval"
  from_tuple :: "pyval \<Rightarrow> pyval"

definition isinstance :: "env \<Rightarrow> exn \<Rightarrow> exn_class \<Rightarrow> bool" where
  \<comment> \<open>\<^verbatim>\<open>isinstance(ex, c)\<close>, the test of \<^verbatim>\<open>except c\<close>: the class itself or one of its
      subclasses. A class that is not from \<^verbatim>\<open>nova.exception\<close> has none of the classes
      the manager names among its ancestors.\<close>
  "isinstance env ex c =
     (class_of ex = c \<or>
      (\<not> builtin_class (class_of ex) \<and> c \<in> set (superclasses env (class_of ex))))"

definition caught :: "env \<Rightarrow> exn \<Rightarrow> exn_class list \<Rightarrow> bool" where
  \<comment> \<open>the test of \<^verbatim>\<open>except (c1, ..., cn)\<close>\<close>
  "caught env ex cs = list_ex (isinstance env ex) cs"

definition expected_exceptions ::
  "env \<Rightarrow> exn_class list \<Rightarrow> (exn + 'a) \<times> world \<Rightarrow> (exn + 'a) \<times> world" where
  \<comment> \<open>the decorator \<^verbatim>\<open>@messaging.expected_exceptions(c1, ..., cn)\<close> around a call: an
      exception the tuple catches is replaced by an \<^verbatim>\<open>ExpectedException\<close> that keeps it,
      any other passes\<close>
  "expected_exceptions env cs r =
     (case r of
        (Inl e, w) \<Rightarrow> if caught env e cs then (Inl (Expected e), w) else (Inl e, w)
      | (Inr v, w) \<Rightarrow> (Inr v, w))"

definition EventReporter ::
  "string \<Rightarrow> string \<Rightarrow> (world \<Rightarrow> (exn + 'a) \<times> world) \<Rightarrow> world \<Rightarrow> (exn + 'a) \<times> world" where
  \<comment> \<open>\<^verbatim>\<open>with compute_utils.EventReporter(context, name, uuid): body\<close>. The context manager
      is not among the sources: it brackets the body with the start and the finish of an
      instance action event and lets the body's exception pass.\<close>
  "EventReporter name iuuid body w =
     (let (r, w') = body (emit (EventStart name iuuid) w)
      in (r, emit (EventFinish name iuuid (case r of Inl e \<Rightarrow> Some e | Inr v \<Rightarrow> None)) w'))"

definition set_vm_state_and_notify ::
  "string \<Rightarrow> string \<Rightarrow> updates \<Rightarrow> exn \<Rightarrow> pydict \<Rightarrow> world \<Rightarrow> world" where
  \<comment> \<open>\<^verbatim>\<open>ComputeTaskManager._set_vm_state_and_notify\<close>\<close>
  "set_vm_state_and_notify iuuid method upd ex request_spec w =
     emit (SetVmStateAndNotify iuuid ''compute_task'' method upd ex request_spec) w"

section \<open>Live migration\<close>

definition set_vm_state ::
  "Instance \<Rightarrow> exn \<Rightarrow> string option \<Rightarrow> string option \<Rightarrow> world \<Rightarrow> world" where
  \<comment> \<open>the local function \<^verbatim>\<open>_set_vm_state\<close> of \<^verbatim>\<open>_live_migrate\<close>\<close>
  "set_vm_state instance ex vm_st task_st w =
     (let request_spec = [(''instance_properties'', VDict [(''uuid'', VStr (uuid instance))])]
      in emit (SetVmStateAndNotify (uuid instance) ''compute_task'' ''migrate_server''
                 [(''vm_state'', vm_st), (''task_state'', task_st),
                  (''expected_task_state'', Some MIGRATING)]
                 ex request_spec) w)"

definition new_migration :: "Instance \<Rightarrow> string option \<Rightarrow> Migration" where
  \<comment> \<open>the record \<^verbatim>\<open>_live_migrate\<close> fills in before \<^verbatim>\<open>migration.create()\<close>\<close>
  "new_migration instance destination =
     \<lparr>dest_compute = destination,
      status = ''pre-migrating'',
      instance_uuid = uuid instance,
      source_compute = host instance,
      migration_type = ''live-migration'',
      old_instance_type_id =
        (case flavor instance of Some f \<Rightarrow> flavor_id f | None \<Rightarrow> instance_type_id instance),
      new_instance_type_id =
        (case flavor instance of Some f \<Rightarrow> flavor_id f | None \<Rightarrow> instance_type_id instance)\<rparr>"

definition live_precheck_classes :: "exn_class list" where
  \<comment> \<open>the tuple of the first \<^verbatim>\<open>except\<close> clause of \<^verbatim>\<open>_live_migrate\<close>\<close>
  "live_precheck_classes =
     [NoValidHost, ComputeServiceUnavailable, InvalidHypervisorType, InvalidCPUInfo,
      UnableToMigrateToSelf, DestinationHypervisorTooOld, InvalidLocalStorage,
      InvalidSharedStorage, HypervisorUnavailable, InstanceInvalidState,
      MigrationPreCheckError, LiveMigrationWithOldNovaNotSafe]"

definition live_migrate ::
  "env \<Rightarrow> Instance \<Rightarrow> scheduler_hint \<Rightarrow> pyval \<Rightarrow> pyval \<Rightarrow> world \<Rightarrow> (exn + unit) \<times> world" where
  \<comment> \<open>\<^verbatim>\<open>ComputeTaskManager._live_migrate\<close>\<close>
  "live_migrate env instance scheduler_hint block_migration disk_over_commit w =
     (let destination = sh_host scheduler_hint;
          migration = new_migration instance destination;
          w1 = emit (MigrationCreate migration) w;
          run = live_task env instance destination block_migration disk_over_commit migration;
          w2 = emits (task_effects run) w1
      in case task_raised run of
           None \<Rightarrow> (Inr (), w2)
         | Some ex \<Rightarrow>
             if caught env ex live_precheck_classes then
               (let w3 = set_vm_state instance ex (vm_state instance) None w2;
                    w4 = emit (MigrationSave (migration\<lparr>status := ''error''\<rparr>)) w3
                in (Inl ex, w4))
             else
               (let w3 = emit (Log ''error''
                           ''Migration of instance %(instance_id)s to host %(dest)s unexpectedly failed.'') w2;
                    w4 = set_vm_state instance ex (Some ERROR) (task_state instance) w3;
                    w5 = emit (MigrationSave (migration\<lparr>status := ''failed''\<rparr>)) w4
                in (Inl (Exn MigrationError [(''reason'', text_type env ex)]), w5)))"

section \<open>Cold migration\<close>

definition cold_migrate ::
  "env \<Rightarrow> Instance \<Rightarrow> Flavor \<Rightarrow> pydict \<Rightarrow> pyval \<Rightarrow> bool \<Rightarrow> world \<Rightarrow> (exn + unit) \<times> world" where
  \<comment> \<open>\<^verbatim>\<open>ComputeTaskManager._cold_migrate\<close>\<close>
  "cold_migrate env instance flv filter_properties reservations clean_shutdown w =
     (let img = get_image_from_system_metadata env (system_metadata instance);
          request_spec = build_request_spec env img [instance] (Some flv);
          run = cold_task env instance flv filter_properties request_spec reservations
                  clean_shutdown;
          w1 = emits (task_effects run) w
      in case task_raised run of
           None \<Rightarrow> (Inr (), w1)
         | Some ex \<Rightarrow>
             if isinstance env ex NoValidHost then
               (let vm_st = (if \<not> truthy_str (vm_state instance) then Some ACTIVE
                             else vm_state instance);
                    upd = [(''vm_state'', vm_st), (''task_state'', None)];
                    w2 = set_vm_state_and_notify (uuid instance) ''migrate_server'' upd ex
                           request_spec w1;
                    msg = (if flavor_id flv = instance_type_id instance
                           then ''No valid host found for cold migrate''
                           else ''No valid host found for resize'')
                in (Inl (Exn NoValidHost [(''reason'', msg)]), w2))
             else if isinstance env ex UnsupportedPolicyException then
               (let vm_st = (if \<not> truthy_str (vm_state instance) then Some ACTIVE
                             else vm_state instance);
                    upd = [(''vm_state'', vm_st), (''task_state'', None)];
                    w2 = set_vm_state_and_notify (uuid instance) ''migrate_server'' upd ex
                           request_spec w1
                in (Inl ex, w2))
             else
               (let upd = [(''vm_state'', vm_state instance), (''task_state'', None)];
                    w2 = set_vm_state_and_notify (uuid instance) ''migrate_server'' upd ex
                           request_spec w1
                in (Inl ex, w2)))"

section \<open>The entry point \<^verbatim>\<open>migrate_server\<close>\<close>

text \<open>
  Until version 2 of the RPC interface the instance and the flavor may arrive as
  dictionaries. The argument types keep the three shapes Python can see: nothing, an
  object, a dictionary.
\<close>

datatype instance_arg = InstanceNone | InstanceObj Instance | InstanceDict pydict

datatype flavor_arg = FlavorNone | FlavorObj Flavor | FlavorDict pydict

fun truthy_instance :: "instance_arg \<Rightarrow> bool" where
  "truthy_instance InstanceNone = False"
| "truthy_instance (InstanceObj i) = True"
| "truthy_instance (InstanceDict d) = (d \<noteq> [])"

fun is_nova_object :: "instance_arg \<Rightarrow> bool" where
  "is_nova_object (InstanceObj i) = True"
| "is_nova_object a = False"

fun truthy_flavor :: "flavor_arg \<Rightarrow> bool" where
  "truthy_flavor FlavorNone = False"
| "truthy_flavor (FlavorObj f) = True"
| "truthy_flavor (FlavorDict d) = (d \<noteq> [])"

fun is_flavor_object :: "flavor_arg \<Rightarrow> bool" where
  "is_flavor_object (FlavorObj f) = True"
| "is_flavor_object a = False"

definition normalize_instance :: "env \<Rightarrow> instance_arg \<Rightarrow> world \<Rightarrow> instance_arg \<times> world" where
  \<comment> \<open>lines 531 to 538 of \<^verbatim>\<open>migrate_server\<close>\<close>
  "normalize_instance env instance w =
     (if truthy_instance instance \<and> \<not> is_nova_object instance then
        (case instance of
           InstanceDict d \<Rightarrow>
             (InstanceObj (instance_from_db_object env d), emit (InstanceFromDbObject d) w)
         | other \<Rightarrow> (other, w))
      else (instance, w))"

definition normalize_flavor ::
  "env \<Rightarrow> flavor_arg \<Rightarrow> world \<Rightarrow> (exn + flavor_arg) \<times> world" where
  \<comment> \<open>lines 540 to 543 of \<^verbatim>\<open>migrate_server\<close>\<close>
  "normalize_flavor env flv w =
     (if truthy_flavor flv \<and> \<not> is_flavor_object flv then
        (case flv of
           FlavorDict d \<Rightarrow>
             (case map_of d ''id'' of
                None \<Rightarrow> (Inl (Exn KeyError []), w)
              | Some fid \<Rightarrow>
                  (let w1 = emit (FlavorGetById fid) w
                   in case flavor_get_by_id env fid of
                        Inl e \<Rightarrow> (Inl e, w1)
                      | Inr f \<Rightarrow> (Inr (FlavorObj f), w1)))
         | other \<Rightarrow> (Inr other, w))
      else (Inr flv, w))"

definition dispatch_migrate ::
  "env \<Rightarrow> instance_arg \<Rightarrow> scheduler_hint \<Rightarrow> bool \<Rightarrow> bool \<Rightarrow> flavor_arg \<Rightarrow> pyval \<Rightarrow> pyval \<Rightarrow>
   pyval \<Rightarrow> bool \<Rightarrow> world \<Rightarrow> (exn + unit) \<times> world" where
  \<comment> \<open>lines 544 to 555 of \<^verbatim>\<open>migrate_server\<close>. An instance that is not an object
      has no attribute \<^verbatim>\<open>uuid\<close>; a flavor that is true here is an object, because
      a true dictionary has been replaced above.\<close>
  "dispatch_migrate env instance scheduler_hint live rebuild flv block_migration
       disk_over_commit reservations clean_shutdown w =
     (if live \<and> \<not> rebuild \<and> \<not> truthy_flavor flv then
        (case instance of
           InstanceObj i \<Rightarrow> live_migrate env i scheduler_hint block_migration disk_over_commit w
         | other \<Rightarrow> (Inl (Exn AttributeError []), w))
      else if \<not> live \<and> \<not> rebuild \<and> truthy_flavor flv then
        (case instance of
           InstanceObj i \<Rightarrow>
             EventReporter ''cold_migrate'' (uuid i)
               (\<lambda>w'. case sh_filter_properties scheduler_hint of
                        None \<Rightarrow> (Inl (Exn KeyError []), w')
                      | Some fp \<Rightarrow>
                          (case flv of
                             FlavorObj f \<Rightarrow> cold_migrate env i f fp reservations clean_shutdown w'
                           | other \<Rightarrow> (Inl (Exn AttributeError []), w'))) w
         | other \<Rightarrow> (Inl (Exn AttributeError []), w))
      else (Inl (Exn NotImplementedError []), w))"

definition migrate_expected_classes :: "exn_class list" where
  \<comment> \<open>the arguments of the decorator of \<^verbatim>\<open>migrate_server\<close>, lines 515 to 527\<close>
  "migrate_expected_classes =
     [NoValidHost, ComputeServiceUnavailable, InvalidHypervisorType, InvalidCPUInfo,
      UnableToMigrateToSelf, DestinationHypervisorTooOld, InvalidLocalStorage,
      InvalidSharedStorage, HypervisorUnavailable, InstanceInvalidState,
      MigrationPreCheckError, LiveMigrationWithOldNovaNotSafe, UnsupportedPolicyException]"

definition migrate_server ::
  "env \<Rightarrow> instance_arg \<Rightarrow> scheduler_hint \<Rightarrow> bool \<Rightarrow> bool \<Rightarrow> flavor_arg \<Rightarrow> pyval \<Rightarrow> pyval \<Rightarrow>
   pyval \<Rightarrow> bool \<Rightarrow> world \<Rightarrow> (exn + unit) \<times> world" where
  \<comment> \<open>\<^verbatim>\<open>ComputeTaskManager.migrate_server\<close>\<close>
  "migrate_server env instance scheduler_hint live rebuild flv block_migration
       disk_over_commit reservations clean_shutdown w =
     expected_exceptions env migrate_expected_classes
       (let (instance', w1) = normalize_instance env instance w
        in case normalize_flavor env flv w1 of
             (Inl e, w2) \<Rightarrow> (Inl e, w2)
           | (Inr flv', w2) \<Rightarrow>
               dispatch_migrate env instance' scheduler_hint live rebuild flv' block_migration
                 disk_over_commit reservations clean_shutdown w2)"

section \<open>Building a batch of instances\<close>

definition alloc :: "pydict \<Rightarrow> world \<Rightarrow> nat \<times> world" where
  \<comment> \<open>a new dictionary object with the given content\<close>
  "alloc d w =
     (fp_next w, w\<lparr>fp_store := (fp_store w)(fp_next w := d), fp_next := Suc (fp_next w)\<rparr>)"

definition store :: "nat \<Rightarrow> pydict \<Rightarrow> world \<Rightarrow> world" where
  \<comment> \<open>an update in place of the object at an address\<close>
  "store a d w = w\<lparr>fp_store := (fp_store w)(a := d)\<rparr>"

definition deepcopy :: "nat \<Rightarrow> world \<Rightarrow> nat \<times> world" where
  \<comment> \<open>\<^verbatim>\<open>copy.deepcopy\<close>: a new object with the content of the old one\<close>
  "deepcopy a w = alloc (fp_store w a) w"

fun getitem :: "pyval \<Rightarrow> string \<Rightarrow> exn + pyval" where
  "getitem (VDict d) k = (case map_of d k of None \<Rightarrow> Inl (Exn KeyError []) | Some v \<Rightarrow> Inr v)"
| "getitem v k = Inl (Exn TypeError [])"

fun is_flavor_value :: "pyval \<Rightarrow> bool" where
  "is_flavor_value (VFlavor f) = True"
| "is_flavor_value v = False"

definition normalize_requested_networks :: "env \<Rightarrow> requested_networks \<Rightarrow> requested_networks" where
  \<comment> \<open>lines 697 to 702 of \<^verbatim>\<open>build_instances\<close>\<close>
  "normalize_requested_networks env requested_networks =
     (case requested_networks of
        NetworkTuples ts \<Rightarrow>
          (if ts \<noteq> [] then NetworkRequestList (map (from_tuple env) ts) else NetworkTuples ts)
      | other \<Rightarrow> other)"

definition normalize_instance_type :: "env \<Rightarrow> pydict \<Rightarrow> world \<Rightarrow> (exn + pydict) \<times> world" where
  \<comment> \<open>lines 704 to 709 of \<^verbatim>\<open>build_instances\<close>\<close>
  "normalize_instance_type env filter_properties w =
     (case map_of filter_properties ''instance_type'' of
        None \<Rightarrow> (Inr filter_properties, w)
      | Some flv \<Rightarrow>
          if truthy flv \<and> \<not> is_flavor_value flv then
            (case getitem flv ''id'' of
               Inl e \<Rightarrow> (Inl e, w)
             | Inr fid \<Rightarrow>
                 (let w1 = emit (FlavorGetById fid) w
                  in case flavor_get_by_id env fid of
                       Inl e \<Rightarrow> (Inl e, w1)
                     | Inr f \<Rightarrow>
                         (Inr (AList.update ''instance_type'' (VFlavor f) filter_properties), w1)))
          else (Inr filter_properties, w))"

definition select_hosts ::
  "env \<Rightarrow> pydict \<Rightarrow> Instance list \<Rightarrow> nat \<Rightarrow> world \<Rightarrow> (exn + host_state list) \<times> world" where
  \<comment> \<open>the body of the \<^verbatim>\<open>try\<close> of \<^verbatim>\<open>build_instances\<close>, lines 712 to 720; the two
      utilities update the filter properties in place\<close>
  "select_hosts env request_spec instances a w =
     (case setup_instance_group env request_spec (fp_store w a) of
        Inl e \<Rightarrow> (Inl e, w)
      | Inr fp1 \<Rightarrow>
          (let w1 = store a fp1 w
           in case instances of
                [] \<Rightarrow> (Inl (Exn IndexError []), w1)
              | i0 # others \<Rightarrow>
                  (case populate_retry env fp1 (uuid i0) of
                     Inl e \<Rightarrow> (Inl e, w1)
                   | Inr fp2 \<Rightarrow>
                       (let w2 = store a fp2 w1;
                            w3 = emit (SelectDestinations request_spec fp2) w2
                        in case select_destinations env request_spec fp2 of
                             Inl e \<Rightarrow> (Inl e, w3)
                           | Inr hosts \<Rightarrow> (Inr hosts, w3)))))"

fun build_loop ::
  "env \<Rightarrow> nat \<Rightarrow> pyval \<Rightarrow> pydict \<Rightarrow> pyval \<Rightarrow> pyval \<Rightarrow> requested_networks \<Rightarrow> pyval \<Rightarrow>
   (Instance \<times> host_state) list \<Rightarrow> world \<Rightarrow> (exn + unit) \<times> world" where
  "build_loop env a img request_spec admin_password injected_files requested_networks
       security_groups [] w = (Inr (), w)"
| "build_loop env a img request_spec admin_password injected_files requested_networks
       security_groups ((instance, hst) # rest) w =
     (case refresh env instance of
        Inl e \<Rightarrow>
          if isinstance env e InstanceNotFound \<or> isinstance env e InstanceInfoCacheNotFound then
            build_loop env a img request_spec admin_password injected_files
              requested_networks security_groups rest
              (emit (Log ''debug'' ''Instance deleted during build'') w)
          else (Inl e, w)
      | Inr instance' \<Rightarrow>
          (let (local_filter_props, w1) = deepcopy a w;
               w2 = store local_filter_props
                      (populate_filter_properties env (fp_store w1 local_filter_props) hst) w1;
               bdms = bdms_get_by_instance_uuid env (uuid instance');
               w3 = emit (Rpc_build_and_run_instance
                      \<lparr>b_instance = instance', b_host = hs_host hst, b_image = img,
                       b_request_spec = request_spec,
                       b_filter_properties = fp_store w2 local_filter_props,
                       b_admin_password = admin_password, b_injected_files = injected_files,
                       b_requested_networks = requested_networks,
                       b_security_groups = security_groups,
                       b_block_device_mapping = bdms, b_node = hs_nodename hst,
                       b_limits = hs_limits hst\<rparr>) w2
           in build_loop env a img request_spec admin_password injected_files
                requested_networks security_groups rest w3))"

definition build_instances ::
  "env \<Rightarrow> Instance list \<Rightarrow> pyval \<Rightarrow> pydict \<Rightarrow> pyval \<Rightarrow> pyval \<Rightarrow> requested_networks \<Rightarrow> pyval \<Rightarrow>
   world \<Rightarrow> (exn + unit) \<times> world" where
  \<comment> \<open>\<^verbatim>\<open>ComputeTaskManager.build_instances\<close>; its last two parameters are not read.
      The filter properties arrive over RPC, so they are an object of their own.\<close>
  "build_instances env instances img filter_properties admin_password injected_files
       requested_networks security_groups w =
     (let request_spec = build_request_spec env img instances None;
          requested_networks' = normalize_requested_networks env requested_networks
      in case normalize_instance_type env filter_properties w of
           (Inl e, w1) \<Rightarrow> (Inl e, w1)
         | (Inr filter_properties', w1) \<Rightarrow>
             (let (a, w2) = alloc filter_properties' w1
              in case select_hosts env request_spec instances a w2 of
                   (Inl exc, w3) \<Rightarrow>
                     (let upd = [(''vm_state'', Some ERROR), (''task_state'', None)]
                      in (Inr (),
                          foldl (\<lambda>w' instance.
                                   set_vm_state_and_notify (uuid instance) ''build_instances''
                                     upd exc request_spec w')
                            w3 instances))
                 | (Inr hosts, w3) \<Rightarrow>
                     build_loop env a img request_spec admin_password injected_files
                       requested_networks' security_groups (zip instances hosts) w3))"

section \<open>Unshelving\<close>

definition safe_image_show :: "env \<Rightarrow> string option \<Rightarrow> world \<Rightarrow> (exn + pyval) \<times> world" where
  \<comment> \<open>the local function \<^verbatim>\<open>safe_image_show\<close> of \<^verbatim>\<open>unshelve_instance\<close>\<close>
  "safe_image_show env image_id w =
     (case image_id of
        None \<Rightarrow> (Inl (Exn ImageNotFound [(''image_id'', [])]), w)
      | Some s \<Rightarrow>
          if s \<noteq> [] then (image_get env s, emit (ImageGet s) w)
          else (Inl (Exn ImageNotFound [(''image_id'', [])]), w))"

definition schedule_instances ::
  "env \<Rightarrow> pyval \<Rightarrow> pydict \<Rightarrow> Instance list \<Rightarrow> world \<Rightarrow> (exn + host_state list \<times> pydict) \<times> world" where
  \<comment> \<open>\<^verbatim>\<open>ComputeTaskManager._schedule_instances\<close>; the second component of the result is
      the caller's filter properties as \<^verbatim>\<open>setup_instance_group\<close> left them\<close>
  "schedule_instances env img filter_properties instances w =
     (let request_spec = build_request_spec env img instances None
      in case setup_instance_group env request_spec filter_properties of
           Inl e \<Rightarrow> (Inl e, w)
         | Inr fp1 \<Rightarrow>
             (let w1 = emit (SelectDestinations request_spec fp1) w
              in case select_destinations env request_spec fp1 of
                   Inl e \<Rightarrow> (Inl e, w1)
                 | Inr hosts \<Rightarrow> (Inr (hosts, fp1), w1)))"

definition unshelve_get_image ::
  "env \<Rightarrow> Instance \<Rightarrow> string \<Rightarrow> world \<Rightarrow> (exn + pyval) \<times> world" where
  \<comment> \<open>lines 785 to 798 of \<^verbatim>\<open>unshelve_instance\<close>\<close>
  "unshelve_get_image env instance image_id w =
     EventReporter ''get_image_info'' (uuid instance)
       (\<lambda>w0. case safe_image_show env (Some image_id) w0 of
                (Inr img, w1) \<Rightarrow> (Inr img, w1)
              | (Inl e, w1) \<Rightarrow>
                  if isinstance env e ImageNotFound then
                    (let instance1 = instance\<lparr>vm_state := Some ERROR\<rparr>;
                         w2 = emit (InstanceSave instance1 None) w1;
                         reason = ''Unshelve attempted but the image '' @ image_id @
                                  '' cannot be found.'';
                         w3 = emit (Log ''error'' reason) w2
                     in (Inl (Exn UnshelveException
                                [(''instance_id'', uuid instance), (''reason'', reason)]), w3))
                  else (Inl e, w1)) w"

definition unshelve_find_image ::
  "env \<Rightarrow> (string \<times> string) list \<Rightarrow> Instance \<Rightarrow> world \<Rightarrow> (exn + pyval) \<times> world" where
  \<comment> \<open>lines 779 to 798 of \<^verbatim>\<open>unshelve_instance\<close>: the image, \<^verbatim>\<open>None\<close> when no
      shelved image id is recorded\<close>
  "unshelve_find_image env sys_meta instance w =
     (let image_id = map_of sys_meta ''shelved_image_id''
      in case image_id of
           None \<Rightarrow> (Inr VNone, w)
         | Some s \<Rightarrow>
             if s \<noteq> [] then unshelve_get_image env instance s w
             else (Inr VNone, w))"

definition unshelve_schedule ::
  "env \<Rightarrow> Instance \<Rightarrow> pyval \<Rightarrow> world \<Rightarrow> (exn + unit) \<times> world" where
  \<comment> \<open>the body of the \<^verbatim>\<open>try\<close> of \<^verbatim>\<open>unshelve_instance\<close>, lines 801 to 815\<close>
  "unshelve_schedule env instance img w =
     EventReporter ''schedule_instances'' (uuid instance)
       (\<lambda>w0. case populate_retry env [] (uuid instance) of
                Inl e \<Rightarrow> (Inl e, w0)
              | Inr fp0 \<Rightarrow>
                  (case schedule_instances env img fp0 [instance] w0 of
                     (Inl e, w1) \<Rightarrow> (Inl e, w1)
                   | (Inr (hosts, fp1), w1) \<Rightarrow>
                       (case hosts of
                          [] \<Rightarrow> (Inl (Exn IndexError []), w1)
                        | host_st # others \<Rightarrow>
                            (let fp2 = populate_filter_properties env fp1 host_st;
                                 w2 = emit (Rpc_unshelve_instance instance (hs_host host_st)
                                              img fp2 (hs_nodename host_st)) w1
                             in (Inr (), w2))))) w"

definition unshelve_instance :: "env \<Rightarrow> Instance \<Rightarrow> world \<Rightarrow> (exn + unit) \<times> world" where
  \<comment> \<open>\<^verbatim>\<open>ComputeTaskManager.unshelve_instance\<close>\<close>
  "unshelve_instance env instance w =
     (let sys_meta = system_metadata instance
      in if vm_state instance = Some SHELVED then
           (let instance1 = instance\<lparr>task_state := Some POWERING_ON\<rparr>;
                w1 = emit (InstanceSave instance1 (Some UNSHELVING)) w;
                w2 = emit (Rpc_start_instance instance1) w1
            in (Inr (), w2))
         else if vm_state instance = Some SHELVED_OFFLOADED then
           (case unshelve_find_image env sys_meta instance w of
              (Inl e, w1) \<Rightarrow> (Inl e, w1)
            | (Inr img, w1) \<Rightarrow>
                (case unshelve_schedule env instance img w1 of
                   (Inr u, w2) \<Rightarrow> (Inr (), w2)
                 | (Inl e, w2) \<Rightarrow>
                     if isinstance env e NoValidHost \<or> isinstance env e UnsupportedPolicyException
                     then
                       (let instance1 = instance\<lparr>task_state := None\<rparr>;
                            w3 = emit (InstanceSave instance1 None) w2;
                            w4 = emit (Log ''warning''
                                         ''No valid host found for unshelve instance'') w3
                        in (Inr (), w4))
                     else
                       (let instance1 = instance\<lparr>task_state := None\<rparr>;
                            w3 = emit (InstanceSave instance1 None) w2;
                            w4 = emit (Log ''error''
                                         ''Unshelve attempted but an error has occurred'') w3
                        in (Inl e, w4))))
         else
           (let w1 = emit (Log ''error''
                         ''Unshelve attempted but vm_state not SHELVED or SHELVED_OFFLOADED'') w;
                instance1 = instance\<lparr>vm_state := Some ERROR\<rparr>;
                w2 = emit (InstanceSave instance1 None) w1
            in (Inr (), w2)))"

section \<open>Rebuilding\<close>

definition rebuild_select_host ::
  "env \<Rightarrow> pydict \<Rightarrow> pydict \<Rightarrow> world \<Rightarrow> (exn + string) \<times> world" where
  \<comment> \<open>the body of the \<^verbatim>\<open>try\<close> of \<^verbatim>\<open>rebuild_instance\<close>, lines 851 to 856\<close>
  "rebuild_select_host env request_spec filter_properties w =
     (case setup_instance_group env request_spec filter_properties of
        Inl e \<Rightarrow> (Inl e, w)
      | Inr fp1 \<Rightarrow>
          (let w1 = emit (SelectDestinations request_spec fp1) w
           in case select_destinations env request_spec fp1 of
                Inl e \<Rightarrow> (Inl e, w1)
              | Inr hosts \<Rightarrow>
                  (case hosts of
                     [] \<Rightarrow> (Inl (Exn IndexError []), w1)
                   | h # others \<Rightarrow> (Inr (hs_host h), w1))))"

definition rebuild_find_host ::
  "env \<Rightarrow> Instance \<Rightarrow> pyval \<Rightarrow> string option \<Rightarrow> world \<Rightarrow> (exn + string option) \<times> world" where
  \<comment> \<open>lines 843 to 873 of \<^verbatim>\<open>rebuild_instance\<close>: the host the rebuild goes to\<close>
  "rebuild_find_host env instance image_ref hst w =
     (if \<not> truthy_str hst then
        (let filter_properties = [(''ignore_hosts'', VList [of_str (host instance)])];
             request_spec = build_request_spec env image_ref [instance] None
         in case rebuild_select_host env request_spec filter_properties w of
              (Inr h, w1) \<Rightarrow> (Inr (Some h), w1)
            | (Inl ex, w1) \<Rightarrow>
                if isinstance env ex NoValidHost then
                  (let upd = [(''vm_state'', vm_state instance), (''task_state'', None)];
                       w2 = set_vm_state_and_notify (uuid instance) ''rebuild_server'' upd ex
                              request_spec w1;
                       w3 = emit (Log ''warning'' ''No valid host found for rebuild'') w2
                   in (Inl ex, w3))
                else if isinstance env ex UnsupportedPolicyException then
                  (let upd = [(''vm_state'', vm_state instance), (''task_state'', None)];
                       w2 = set_vm_state_and_notify (uuid instance) ''rebuild_server'' upd ex
                              request_spec w1;
                       w3 = emit (Log ''warning''
                                    ''Server with unsupported policy cannot be rebuilt'') w2
                   in (Inl ex, w3))
                else (Inl ex, w1))
      else (Inr hst, w))"

definition rebuild_instance ::
  "env \<Rightarrow> Instance \<Rightarrow> pyval \<Rightarrow> pyval \<Rightarrow> pyval \<Rightarrow> pyval \<Rightarrow> pyval \<Rightarrow> pyval \<Rightarrow> bool \<Rightarrow> bool \<Rightarrow> bool \<Rightarrow>
   string option \<Rightarrow> world \<Rightarrow> (exn + unit) \<times> world" where
  \<comment> \<open>\<^verbatim>\<open>ComputeTaskManager.rebuild_instance\<close>\<close>
  "rebuild_instance env instance orig_image_ref image_ref injected_files new_pass
       orig_sys_metadata bdms recreate on_shared_storage preserve_ephemeral hst w =
     EventReporter ''rebuild_server'' (uuid instance)
       (\<lambda>w0. case rebuild_find_host env instance image_ref hst w0 of
                (Inl ex, w1) \<Rightarrow> (Inl ex, w1)
              | (Inr hst', w1) \<Rightarrow>
                  (let w2 = emit (NotifyUsage instance ''rebuild.scheduled'') w1;
                       w3 = emit (Rpc_rebuild_instance
                              \<lparr>r_instance = instance, r_new_pass = new_pass,
                               r_injected_files = injected_files, r_image_ref = image_ref,
                               r_orig_image_ref = orig_image_ref,
                               r_orig_sys_metadata = orig_sys_metadata, r_bdms = bdms,
                               r_recreate = recreate, r_on_shared_storage = on_shared_storage,
                               r_preserve_ephemeral = preserve_ephemeral, r_host = hst'\<rparr>) w2
                   in (Inr (), w3))) w"

section \<open>The outcome of one pair of a batch, as the claims word it\<close>

text \<open>
  These three definitions are not taken from the source: they state what the specification
  says about the loop of \<^verbatim>\<open>build_instances\<close>, and the theorems compare the loop with
  them.
\<close>

definition refresh_tolerated :: "env \<Rightarrow> Instance \<Rightarrow> bool" where
  \<comment> \<open>the refresh of the instance succeeds, or fails with one of the two exceptions the
      loop of \<^verbatim>\<open>build_instances\<close> catches\<close>
  "refresh_tolerated env i =
     (case refresh env i of
        Inr i' \<Rightarrow> True
      | Inl e \<Rightarrow> isinstance env e InstanceNotFound \<or> isinstance env e InstanceInfoCacheNotFound)"

definition expected_build_call ::
  "env \<Rightarrow> pyval \<Rightarrow> pydict \<Rightarrow> pydict \<Rightarrow> pyval \<Rightarrow> pyval \<Rightarrow> requested_networks \<Rightarrow> pyval \<Rightarrow>
   Instance \<Rightarrow> host_state \<Rightarrow> build_call" where
  \<comment> \<open>what the claim says is sent for a refreshed instance and its host: the batch's
      arguments, and the batch's filter properties annotated for this host alone\<close>
  "expected_build_call env img request_spec filter_properties admin_password injected_files
       requested_networks security_groups i h =
     \<lparr>b_instance = i, b_host = hs_host h, b_image = img, b_request_spec = request_spec,
      b_filter_properties = populate_filter_properties env filter_properties h,
      b_admin_password = admin_password, b_injected_files = injected_files,
      b_requested_networks = requested_networks, b_security_groups = security_groups,
      b_block_device_mapping = bdms_get_by_instance_uuid env (uuid i),
      b_node = hs_nodename h, b_limits = hs_limits h\<rparr>"

definition expected_build_event ::
  "env \<Rightarrow> pyval \<Rightarrow> pydict \<Rightarrow> pydict \<Rightarrow> pyval \<Rightarrow> pyval \<Rightarrow> requested_networks \<Rightarrow> pyval \<Rightarrow>
   Instance \<times> host_state \<Rightarrow> event" where
  \<comment> \<open>what the claim says happens for one pair: a skip, logged, when the instance is
      gone, the dispatch otherwise\<close>
  "expected_build_event env img request_spec filter_properties admin_password injected_files
       requested_networks security_groups p =
     (case refresh env (fst p) of
        Inl e \<Rightarrow> Log ''debug'' ''Instance deleted during build''
      | Inr i \<Rightarrow>
          Rpc_build_and_run_instance
            (expected_build_call env img request_spec filter_properties admin_password
               injected_files requested_networks security_groups i (snd p)))"

section \<open>Test doubles\<close>

text \<open>
  Concrete collaborators and inputs, on which the theorems below are exercised: an
  instance on host \<open>src-host\<close> with flavor 5, a scheduler that returns one host, and
  collaborators that succeed unless a variant says otherwise.
\<close>

definition flavor0 :: Flavor where
  "flavor0 = \<lparr>flavor_id = 5, flavor_name = ''m1.small''\<rparr>"

definition flavor7 :: Flavor where
  "flavor7 = \<lparr>flavor_id = 7, flavor_name = ''m1.large''\<rparr>"

definition inst0 :: Instance where
  "inst0 = \<lparr>uuid = ''uuid-1'', vm_state = Some ACTIVE, task_state = Some MIGRATING,
            host = Some ''src-host'', instance_type_id = 5, flavor = Some flavor0,
            system_metadata = []\<rparr>"

definition host1 :: host_state where
  "host1 = \<lparr>hs_host = ''host-1'', hs_nodename = ''node-1'', hs_limits = VDict []\<rparr>"

definition env0 :: env where
  "env0 =
     \<lparr>superclasses =
        (\<lambda>c. if c = OtherException ''MaxRetriesExceeded'' then [NoValidHost] else []),
      text_type = (\<lambda>e. ''boom''),
      flavor_get_by_id = (\<lambda>v. Inr flavor7),
      instance_from_db_object = (\<lambda>d. inst0),
      get_image_from_system_metadata = (\<lambda>m. VDict []),
      build_request_spec = (\<lambda>img is f. [(''num_instances'', VInt (int (length is)))]),
      live_task = (\<lambda>i d b c m. \<lparr>task_effects = [TaskRpc ''live_migration'' []],
                                 task_raised = None\<rparr>),
      cold_task = (\<lambda>i f fp rs r c. \<lparr>task_effects = [TaskRpc ''prep_resize'' []],
                                     task_raised = None\<rparr>),
      setup_instance_group = (\<lambda>rs fp. Inr fp),
      populate_retry = (\<lambda>fp u. Inr (fp @ [(''retry'', VStr u)])),
      select_destinations = (\<lambda>rs fp. Inr [host1]),
      populate_filter_properties = (\<lambda>fp h. fp @ [(''limits'', hs_limits h)]),
      refresh = (\<lambda>i. Inr i),
      bdms_get_by_instance_uuid = (\<lambda>u. VList []),
      image_get = (\<lambda>s. Inr (VDict [])),
      from_tuple = (\<lambda>t. t)\<rparr>"

definition world0 :: world where
  "world0 = \<lparr>trace = [], fp_store = (\<lambda>a. []), fp_next = 0\<rparr>"

definition hint0 :: scheduler_hint where
  "hint0 = \<lparr>sh_host = Some ''dst-host'', sh_filter_properties = Some []\<rparr>"

definition env_live_raises :: "exn \<Rightarrow> env" where
  \<comment> \<open>the live-migration task fails after one remote check\<close>
  "env_live_raises ex =
     env0\<lparr>live_task := (\<lambda>i d b c m.
       \<lparr>task_effects = [TaskRpc ''check_can_live_migrate_destination'' []],
        task_raised = Some ex\<rparr>)\<rparr>"

definition env_cold_raises :: "exn \<Rightarrow> env" where
  \<comment> \<open>the cold-migration task fails before any remote call\<close>
  "env_cold_raises ex =
     env0\<lparr>cold_task := (\<lambda>i f fp rs r c. \<lparr>task_effects = [], task_raised = Some ex\<rparr>)\<rparr>"

definition inst_shelved :: Instance where
  "inst_shelved = inst0\<lparr>vm_state := Some SHELVED, task_state := Some UNSHELVING\<rparr>"

definition inst_offloaded :: Instance where
  "inst_offloaded =
     inst0\<lparr>vm_state := Some SHELVED_OFFLOADED, task_state := Some UNSHELVING,
           system_metadata := [(''shelved_image_id'', ''img-1'')]\<rparr>"

definition env_image_missing :: env where
  \<comment> \<open>the image service knows no image\<close>
  "env_image_missing = env0\<lparr>image_get := (\<lambda>s. Inl (Exn ImageNotFound [(''image_id'', s)]))\<rparr>"

definition env_no_host :: "exn \<Rightarrow> env" where
  \<comment> \<open>the scheduler raises instead of returning hosts\<close>
  "env_no_host ex = env0\<lparr>select_destinations := (\<lambda>rs fp. Inl ex)\<rparr>"

definition inst2 :: Instance where
  "inst2 = inst0\<lparr>uuid := ''uuid-2''\<rparr>"

definition inst3 :: Instance where
  "inst3 = inst0\<lparr>uuid := ''uuid-3''\<rparr>"

definition host2 :: host_state where
  "host2 = \<lparr>hs_host = ''host-2'', hs_nodename = ''node-2'',
            hs_limits = VDict [(''memory_mb'', VInt 2048)]\<rparr>"

definition host3 :: host_state where
  "host3 = \<lparr>hs_host = ''host-3'', hs_nodename = ''node-3'',
            hs_limits = VDict [(''memory_mb'', VInt 4096)]\<rparr>"

definition env_vanish :: env where
  \<comment> \<open>three hosts are selected, and the instance \<open>uuid-2\<close> is gone when it is refreshed\<close>
  "env_vanish =
     env0\<lparr>select_destinations := (\<lambda>rs fp. Inr [host1, host2, host3]),
          refresh := (\<lambda>i. if uuid i = ''uuid-2'' then Inl (Exn InstanceNotFound [])
                           else Inr i)\<rparr>"


section \<open>Basic facts\<close>

lemma trace_emit [simp]: "trace (emit e w) = trace w @ [e]"
  by (simp add: emit_def)

lemma trace_emits [simp]: "trace (emits es w) = trace w @ es"
  by (simp add: emits_def)

lemma trace_set_vm_state [simp]:
  "trace (set_vm_state instance ex v t w) =
     trace w @ [SetVmStateAndNotify (uuid instance) ''compute_task'' ''migrate_server''
        [(''vm_state'', v), (''task_state'', t), (''expected_task_state'', Some MIGRATING)]
        ex [(''instance_properties'', VDict [(''uuid'', VStr (uuid instance))])]]"
  by (simp add: set_vm_state_def)

lemma trace_set_vm_state_and_notify [simp]:
  "trace (set_vm_state_and_notify u m upd ex rs w) =
     trace w @ [SetVmStateAndNotify u ''compute_task'' m upd ex rs]"
  by (simp add: set_vm_state_and_notify_def)

lemma new_migration_fields:
  "status (new_migration instance d) = ''pre-migrating''"
  "source_compute (new_migration instance d) = host instance"
  "dest_compute (new_migration instance d) = d"
  "instance_uuid (new_migration instance d) = uuid instance"
  "migration_type (new_migration instance d) = ''live-migration''"
  "old_instance_type_id (new_migration instance d) =
     (case flavor instance of Some f \<Rightarrow> flavor_id f | None \<Rightarrow> instance_type_id instance)"
  "new_instance_type_id (new_migration instance d) =
     old_instance_type_id (new_migration instance d)"
  by (simp_all add: new_migration_def)

lemma live_migrate_trace:
  "\<exists>rest. trace (snd (live_migrate env instance sh bm doc w)) =
     trace w @ MigrationCreate (new_migration instance (sh_host sh)) #
       task_effects (live_task env instance (sh_host sh) bm doc
                       (new_migration instance (sh_host sh))) @ rest"
  by (simp add: live_migrate_def Let_def split: option.split)

section \<open>Live migration: the record comes first\<close>

text \<open>
  Claim C1. Every run of \<^verbatim>\<open>_live_migrate\<close> first creates the migration record, in
  status \<open>pre-migrating\<close>, and only then runs the task: the events the call adds to the
  trace start with the creation of the record, followed by whatever the task issued.
  Hence any remote dispatch in the trace of the call has the creation of the record
  before it. The record takes its source host from the instance's host, and its old and
  new instance-type ids are the same number: the id of the instance's flavor when the
  flavor is loaded, the instance's own \<^verbatim>\<open>instance_type_id\<close> otherwise.
\<close>

theorem live_migrate_record_before_dispatch:
  "(\<exists>rest. trace (snd (live_migrate env instance sh bm doc w)) =
       trace w @ MigrationCreate (new_migration instance (sh_host sh)) #
         task_effects (live_task env instance (sh_host sh) bm doc
                         (new_migration instance (sh_host sh))) @ rest) \<and>
   (\<forall>pre e post.
       trace (snd (live_migrate env instance sh bm doc w)) = trace w @ pre @ e # post \<and>
       is_dispatch e \<longrightarrow>
       MigrationCreate (new_migration instance (sh_host sh)) \<in> set pre) \<and>
   status (new_migration instance (sh_host sh)) = ''pre-migrating'' \<and>
   source_compute (new_migration instance (sh_host sh)) = host instance \<and>
   old_instance_type_id (new_migration instance (sh_host sh)) =
     new_instance_type_id (new_migration instance (sh_host sh)) \<and>
   old_instance_type_id (new_migration instance (sh_host sh)) =
     (case flavor instance of Some f \<Rightarrow> flavor_id f | None \<Rightarrow> instance_type_id instance)"
proof -
  let ?m = "new_migration instance (sh_host sh)"
  let ?t = "trace (snd (live_migrate env instance sh bm doc w))"
  obtain rest where tr: "?t = trace w @ MigrationCreate ?m #
         task_effects (live_task env instance (sh_host sh) bm doc ?m) @ rest"
    using live_migrate_trace by blast
  have order: "MigrationCreate ?m \<in> set pre"
    if "?t = trace w @ pre @ e # post" and "is_dispatch e" for pre e post
  proof (cases pre)
    case Nil
    with that(1) tr have "e = MigrationCreate ?m" by simp
    with that(2) show ?thesis by simp
  next
    case (Cons x xs)
    with that(1) tr have "x = MigrationCreate ?m" by simp
    with Cons show ?thesis by simp
  qed
  show ?thesis
    using tr order by (simp add: new_migration_fields)
qed

theorem live_migrate_record_before_dispatch_witness:
  "trace (snd (live_migrate env0 inst0 hint0 (VBool False) (VBool False) world0)) =
     trace world0 @ [MigrationCreate (new_migration inst0 (Some ''dst-host''))] @
       TaskRpc ''live_migration'' [] # [] \<and>
   is_dispatch (TaskRpc ''live_migration'' []) \<and>
   MigrationCreate (new_migration inst0 (Some ''dst-host'')) \<in>
     set [MigrationCreate (new_migration inst0 (Some ''dst-host''))] \<and>
   new_migration inst0 (Some ''dst-host'') =
     \<lparr>dest_compute = Some ''dst-host'', status = ''pre-migrating'',
      instance_uuid = ''uuid-1'', source_compute = Some ''src-host'',
      migration_type = ''live-migration'', old_instance_type_id = 5,
      new_instance_type_id = 5\<rparr>"
proof -
  have tr: "trace (snd (live_migrate env0 inst0 hint0 (VBool False) (VBool False) world0)) =
      trace world0 @ [MigrationCreate (new_migration inst0 (Some ''dst-host''))] @
        TaskRpc ''live_migration'' [] # []"
    by (simp add: live_migrate_def env0_def hint0_def world0_def Let_def)
  have d: "is_dispatch (TaskRpc ''live_migration'' [])"
    by simp
  have h: "sh_host hint0 = Some ''dst-host''"
    by (simp add: hint0_def)
  from live_migrate_record_before_dispatch
         [of env0 inst0 hint0 "VBool False" "VBool False" world0]
  have "\<forall>pre e post.
       trace (snd (live_migrate env0 inst0 hint0 (VBool False) (VBool False) world0)) =
         trace world0 @ pre @ e # post \<and> is_dispatch e \<longrightarrow>
       MigrationCreate (new_migration inst0 (Some ''dst-host'')) \<in> set pre"
    unfolding h by blast
  with tr d have mem: "MigrationCreate (new_migration inst0 (Some ''dst-host'')) \<in>
     set [MigrationCreate (new_migration inst0 (Some ''dst-host''))]"
    by blast
  have m: "new_migration inst0 (Some ''dst-host'') =
     \<lparr>dest_compute = Some ''dst-host'', status = ''pre-migrating'',
      instance_uuid = ''uuid-1'', source_compute = Some ''src-host'',
      migration_type = ''live-migration'', old_instance_type_id = 5,
      new_instance_type_id = 5\<rparr>"
    by (simp add: new_migration_def inst0_def flavor0_def)
  from tr d mem m show ?thesis by blast
qed

section \<open>Live migration: the two failure paths\<close>

text \<open>
  Claim C2, as the code has it. When the task raises an exception that the first
  \<^verbatim>\<open>except\<close> clause catches, that is, an instance of one of its twelve classes (no
  valid host, compute service unavailable, invalid hypervisor type, invalid CPU info,
  migrate to self, destination hypervisor too old, invalid local storage, invalid shared
  storage, hypervisor unavailable, invalid instance state, migration pre-check error, live
  migration with old nova not safe) or of a subclass of one of them, the manager asks for
  the instance's \<^verbatim>\<open>vm_state\<close> to be set to the value the instance has, with
  \<^verbatim>\<open>task_state\<close> \<^verbatim>\<open>None\<close> and expected task state \<open>migrating\<close>, saves the record
  with status \<open>error\<close> and raises the same exception. For an exception the clause does
  not catch it logs an error, asks for \<^verbatim>\<open>vm_state\<close> \<open>error\<close> with the instance's
  \<^verbatim>\<open>task_state\<close> kept, saves the record with status \<open>failed\<close> and raises a
  \<open>MigrationError\<close> whose reason is the text of the original.
  \<open>UnsupportedPolicyException\<close> is not one of the twelve classes.
\<close>

theorem live_migrate_failure_policy:
  assumes "task_raised (live_task env instance (sh_host sh) bm doc
                          (new_migration instance (sh_host sh))) = Some ex"
  shows "(caught env ex [NoValidHost, ComputeServiceUnavailable, InvalidHypervisorType,
             InvalidCPUInfo, UnableToMigrateToSelf, DestinationHypervisorTooOld,
             InvalidLocalStorage, InvalidSharedStorage, HypervisorUnavailable,
             InstanceInvalidState, MigrationPreCheckError, LiveMigrationWithOldNovaNotSafe] \<longrightarrow>
          fst (live_migrate env instance sh bm doc w) = Inl ex \<and>
          trace (snd (live_migrate env instance sh bm doc w)) =
            trace w @ MigrationCreate (new_migration instance (sh_host sh)) #
              task_effects (live_task env instance (sh_host sh) bm doc
                              (new_migration instance (sh_host sh))) @
              [SetVmStateAndNotify (uuid instance) ''compute_task'' ''migrate_server''
                 [(''vm_state'', vm_state instance), (''task_state'', None),
                  (''expected_task_state'', Some MIGRATING)]
                 ex [(''instance_properties'', VDict [(''uuid'', VStr (uuid instance))])],
               MigrationSave ((new_migration instance (sh_host sh))\<lparr>status := ''error''\<rparr>)]) \<and>
         (\<not> caught env ex [NoValidHost, ComputeServiceUnavailable, InvalidHypervisorType,
             InvalidCPUInfo, UnableToMigrateToSelf, DestinationHypervisorTooOld,
             InvalidLocalStorage, InvalidSharedStorage, HypervisorUnavailable,
             InstanceInvalidState, MigrationPreCheckError, LiveMigrationWithOldNovaNotSafe] \<longrightarrow>
          fst (live_migrate env instance sh bm doc w) =
            Inl (Exn MigrationError [(''reason'', text_type env ex)]) \<and>
          trace (snd (live_migrate env instance sh bm doc w)) =
            trace w @ MigrationCreate (new_migration instance (sh_host sh)) #
              task_effects (live_task env instance (sh_host sh) bm doc
                              (new_migration instance (sh_host sh))) @
              [Log ''error''
                 ''Migration of instance %(instance_id)s to host %(dest)s unexpectedly failed.'',
               SetVmStateAndNotify (uuid instance) ''compute_task'' ''migrate_server''
                 [(''vm_state'', Some ERROR), (''task_state'', task_state instance),
                  (''expected_task_state'', Some MIGRATING)]
                 ex [(''instance_properties'', VDict [(''uuid'', VStr (uuid instance))])],
               MigrationSave ((new_migration instance (sh_host sh))\<lparr>status := ''failed''\<rparr>)]) \<and>
         (class_of ex = UnsupportedPolicyException \<and>
          set (superclasses env UnsupportedPolicyException) \<inter>
            {NoValidHost, ComputeServiceUnavailable, InvalidHypervisorType,
             InvalidCPUInfo, UnableToMigrateToSelf, DestinationHypervisorTooOld,
             InvalidLocalStorage, InvalidSharedStorage, HypervisorUnavailable,
             InstanceInvalidState, MigrationPreCheckError, LiveMigrationWithOldNovaNotSafe} = {} \<longrightarrow>
          \<not> caught env ex [NoValidHost, ComputeServiceUnavailable, InvalidHypervisorType,
             InvalidCPUInfo, UnableToMigrateToSelf, DestinationHypervisorTooOld,
             InvalidLocalStorage, InvalidSharedStorage, HypervisorUnavailable,
             InstanceInvalidState, MigrationPreCheckError, LiveMigrationWithOldNovaNotSafe])"
proof -
  have policy: "\<not> caught env ex live_precheck_classes"
    if "class_of ex = UnsupportedPolicyException \<and>
          set (superclasses env UnsupportedPolicyException) \<inter>
            {NoValidHost, ComputeServiceUnavailable, InvalidHypervisorType,
             InvalidCPUInfo, UnableToMigrateToSelf, DestinationHypervisorTooOld,
             InvalidLocalStorage, InvalidSharedStorage, HypervisorUnavailable,
             InstanceInvalidState, MigrationPreCheckError, LiveMigrationWithOldNovaNotSafe} = {}"
    using that by (auto simp: caught_def isinstance_def live_precheck_classes_def)
  show ?thesis
    unfolding live_precheck_classes_def [symmetric]
    using assms policy by (simp add: live_migrate_def Let_def)
qed

theorem live_migrate_failure_policy_witness:
  "fst (live_migrate (env_live_raises (Exn InvalidCPUInfo [])) inst0 hint0
          (VBool False) (VBool False) world0) = Inl (Exn InvalidCPUInfo []) \<and>
   trace (snd (live_migrate (env_live_raises (Exn InvalidCPUInfo [])) inst0 hint0
          (VBool False) (VBool False) world0)) =
     [MigrationCreate (new_migration inst0 (Some ''dst-host'')),
      TaskRpc ''check_can_live_migrate_destination'' [],
      SetVmStateAndNotify ''uuid-1'' ''compute_task'' ''migrate_server''
        [(''vm_state'', Some ''active''), (''task_state'', None),
         (''expected_task_state'', Some ''migrating'')]
        (Exn InvalidCPUInfo []) [(''instance_properties'', VDict [(''uuid'', VStr ''uuid-1'')])],
      MigrationSave ((new_migration inst0 (Some ''dst-host''))\<lparr>status := ''error''\<rparr>)] \<and>
   fst (live_migrate (env_live_raises (Exn (OtherException ''MaxRetriesExceeded'') [])) inst0
          hint0 (VBool False) (VBool False) world0) =
     Inl (Exn (OtherException ''MaxRetriesExceeded'') []) \<and>
   trace (snd (live_migrate (env_live_raises (Exn (OtherException ''MaxRetriesExceeded'') []))
          inst0 hint0 (VBool False) (VBool False) world0)) =
     [MigrationCreate (new_migration inst0 (Some ''dst-host'')),
      TaskRpc ''check_can_live_migrate_destination'' [],
      SetVmStateAndNotify ''uuid-1'' ''compute_task'' ''migrate_server''
        [(''vm_state'', Some ''active''), (''task_state'', None),
         (''expected_task_state'', Some ''migrating'')]
        (Exn (OtherException ''MaxRetriesExceeded'') [])
        [(''instance_properties'', VDict [(''uuid'', VStr ''uuid-1'')])],
      MigrationSave ((new_migration inst0 (Some ''dst-host''))\<lparr>status := ''error''\<rparr>)] \<and>
   fst (live_migrate (env_live_raises (Exn (OtherException ''RuntimeError'') [])) inst0 hint0
          (VBool False) (VBool False) world0) =
     Inl (Exn MigrationError [(''reason'', ''boom'')]) \<and>
   trace (snd (live_migrate (env_live_raises (Exn (OtherException ''RuntimeError'') [])) inst0
          hint0 (VBool False) (VBool False) world0)) =
     [MigrationCreate (new_migration inst0 (Some ''dst-host'')),
      TaskRpc ''check_can_live_migrate_destination'' [],
      Log ''error''
        ''Migration of instance %(instance_id)s to host %(dest)s unexpectedly failed.'',
      SetVmStateAndNotify ''uuid-1'' ''compute_task'' ''migrate_server''
        [(''vm_state'', Some ''error''), (''task_state'', Some ''migrating''),
         (''expected_task_state'', Some ''migrating'')]
        (Exn (OtherException ''RuntimeError'') [])
        [(''instance_properties'', VDict [(''uuid'', VStr ''uuid-1'')])],
      MigrationSave ((new_migration inst0 (Some ''dst-host''))\<lparr>status := ''failed''\<rparr>)]"
proof -
  have raised: "task_raised (live_task (env_live_raises x) inst0
             (sh_host hint0) (VBool False) (VBool False) (new_migration inst0 (sh_host hint0))) =
           Some x" for x
    by (simp add: env_live_raises_def env0_def)
  have sup: "superclasses (env_live_raises x) = superclasses env0" for x
    by (simp add: env_live_raises_def)
  show ?thesis
    using live_migrate_failure_policy [OF raised, of "Exn InvalidCPUInfo []" world0]
          live_migrate_failure_policy
            [OF raised, of "Exn (OtherException ''MaxRetriesExceeded'') []" world0]
          live_migrate_failure_policy [OF raised, of "Exn (OtherException ''RuntimeError'') []"
            world0]
    by (simp add: caught_def isinstance_def sup env_live_raises_def env0_def hint0_def
          world0_def inst0_def ACTIVE_def ERROR_def MIGRATING_def)
qed

text \<open>
  The claim as the specification words it lists unsupported policy among the classes of
  the first path. On the code an \<open>UnsupportedPolicyException\<close> from the task takes the
  second path: a \<open>MigrationError\<close> is raised, the instance is sent to \<open>error\<close> and the
  record is saved as \<open>failed\<close>.
\<close>

theorem live_migrate_unsupported_policy_counterexample:
  "fst (live_migrate (env_live_raises (Exn UnsupportedPolicyException [])) inst0 hint0
          (VBool False) (VBool False) world0) =
     Inl (Exn MigrationError [(''reason'', ''boom'')]) \<and>
   fst (live_migrate (env_live_raises (Exn UnsupportedPolicyException [])) inst0 hint0
          (VBool False) (VBool False) world0) \<noteq> Inl (Exn UnsupportedPolicyException []) \<and>
   trace (snd (live_migrate (env_live_raises (Exn UnsupportedPolicyException [])) inst0 hint0
          (VBool False) (VBool False) world0)) =
     [MigrationCreate (new_migration inst0 (Some ''dst-host'')),
      TaskRpc ''check_can_live_migrate_destination'' [],
      Log ''error''
        ''Migration of instance %(instance_id)s to host %(dest)s unexpectedly failed.'',
      SetVmStateAndNotify ''uuid-1'' ''compute_task'' ''migrate_server''
        [(''vm_state'', Some ''error''), (''task_state'', Some ''migrating''),
         (''expected_task_state'', Some ''migrating'')]
        (Exn UnsupportedPolicyException [])
        [(''instance_properties'', VDict [(''uuid'', VStr ''uuid-1'')])],
      MigrationSave ((new_migration inst0 (Some ''dst-host''))\<lparr>status := ''failed''\<rparr>)]"
  by (simp add: live_migrate_def env_live_raises_def env0_def hint0_def world0_def inst0_def
        Let_def live_precheck_classes_def caught_def isinstance_def ERROR_def MIGRATING_def)

section \<open>Cold migration without a valid host\<close>

text \<open>
  Claim C3. When the cold-migration task raises an exception that \<^verbatim>\<open>except
  exception.NoValidHost\<close> catches (an instance of the class or of a subclass),
  \<^verbatim>\<open>_cold_migrate\<close> asks for the instance's \<^verbatim>\<open>vm_state\<close> to be set to the value the instance has (to
  \<open>active\<close> when that value is \<^verbatim>\<open>None\<close> or empty) with \<^verbatim>\<open>task_state\<close> \<^verbatim>\<open>None\<close>,
  and then raises a \<open>NoValidHost\<close> whose reason is \<open>No valid host found for cold migrate\<close>
  when the target flavor's id equals the instance's \<^verbatim>\<open>instance_type_id\<close> and
  \<open>No valid host found for resize\<close> otherwise. The update is in the trace of the world
  the exception comes with, so it happened before the raise. This holds for every
  \<^verbatim>\<open>vm_state\<close>, \<open>active\<close>, \<open>stopped\<close> and \<open>resized\<close> among them.
\<close>

theorem cold_migrate_no_valid_host:
  assumes "task_raised (cold_task env instance flv fp
             (build_request_spec env (get_image_from_system_metadata env (system_metadata instance))
                [instance] (Some flv)) reservations clean_shutdown) = Some ex"
    and "isinstance env ex NoValidHost"
  shows "fst (cold_migrate env instance flv fp reservations clean_shutdown w) =
           Inl (Exn NoValidHost
                  [(''reason'', if flavor_id flv = instance_type_id instance
                               then ''No valid host found for cold migrate''
                               else ''No valid host found for resize'')]) \<and>
         trace (snd (cold_migrate env instance flv fp reservations clean_shutdown w)) =
           trace w @
           task_effects (cold_task env instance flv fp
             (build_request_spec env (get_image_from_system_metadata env (system_metadata instance))
                [instance] (Some flv)) reservations clean_shutdown) @
           [SetVmStateAndNotify (uuid instance) ''compute_task'' ''migrate_server''
              [(''vm_state'', if vm_state instance = None \<or> vm_state instance = Some []
                              then Some ACTIVE else vm_state instance),
               (''task_state'', None)]
              ex
              (build_request_spec env (get_image_from_system_metadata env (system_metadata instance))
                 [instance] (Some flv))]"
  using assms
  by (cases "vm_state instance") (simp_all add: cold_migrate_def Let_def truthy_str_def)

theorem cold_migrate_no_valid_host_witness:
  "cold_migrate (env_cold_raises (Exn NoValidHost [])) inst0 flavor0 [] VNone True world0 =
     (Inl (Exn NoValidHost [(''reason'', ''No valid host found for cold migrate'')]),
      world0\<lparr>trace :=
        [SetVmStateAndNotify ''uuid-1'' ''compute_task'' ''migrate_server''
           [(''vm_state'', Some ''active''), (''task_state'', None)] (Exn NoValidHost [])
           [(''num_instances'', VInt 1)]]\<rparr>) \<and>
   cold_migrate (env_cold_raises (Exn NoValidHost [])) (inst0\<lparr>vm_state := Some STOPPED\<rparr>)
       flavor7 [] VNone True world0 =
     (Inl (Exn NoValidHost [(''reason'', ''No valid host found for resize'')]),
      world0\<lparr>trace :=
        [SetVmStateAndNotify ''uuid-1'' ''compute_task'' ''migrate_server''
           [(''vm_state'', Some ''stopped''), (''task_state'', None)] (Exn NoValidHost [])
           [(''num_instances'', VInt 1)]]\<rparr>) \<and>
   cold_migrate (env_cold_raises (Exn NoValidHost [])) (inst0\<lparr>vm_state := Some RESIZED\<rparr>)
       flavor7 [] VNone True world0 =
     (Inl (Exn NoValidHost [(''reason'', ''No valid host found for resize'')]),
      world0\<lparr>trace :=
        [SetVmStateAndNotify ''uuid-1'' ''compute_task'' ''migrate_server''
           [(''vm_state'', Some ''resized''), (''task_state'', None)] (Exn NoValidHost [])
           [(''num_instances'', VInt 1)]]\<rparr>) \<and>
   cold_migrate (env_cold_raises (Exn NoValidHost [])) (inst0\<lparr>vm_state := None\<rparr>)
       flavor0 [] VNone True world0 =
     (Inl (Exn NoValidHost [(''reason'', ''No valid host found for cold migrate'')]),
      world0\<lparr>trace :=
        [SetVmStateAndNotify ''uuid-1'' ''compute_task'' ''migrate_server''
           [(''vm_state'', Some ''active''), (''task_state'', None)] (Exn NoValidHost [])
           [(''num_instances'', VInt 1)]]\<rparr>) \<and>
   cold_migrate (env_cold_raises (Exn (OtherException ''MaxRetriesExceeded'') [])) inst0
       flavor7 [] VNone True world0 =
     (Inl (Exn NoValidHost [(''reason'', ''No valid host found for resize'')]),
      world0\<lparr>trace :=
        [SetVmStateAndNotify ''uuid-1'' ''compute_task'' ''migrate_server''
           [(''vm_state'', Some ''active''), (''task_state'', None)]
           (Exn (OtherException ''MaxRetriesExceeded'') [])
           [(''num_instances'', VInt 1)]]\<rparr>)"
proof -
  let ?env = "env_cold_raises (Exn NoValidHost [])"
  have raised: "task_raised (cold_task ?env i f []
             (build_request_spec ?env (get_image_from_system_metadata ?env (system_metadata i))
                [i] (Some f)) VNone True) = Some (Exn NoValidHost [])" for i f
    by (simp add: env_cold_raises_def env0_def)
  have cls: "isinstance ?env (Exn NoValidHost []) NoValidHost"
    by (simp add: isinstance_def)
  have unchanged: "fp_store (snd (cold_migrate ?env i f [] VNone True world0)) = fp_store world0 \<and>
      fp_next (snd (cold_migrate ?env i f [] VNone True world0)) = fp_next world0" for i f
    by (simp add: cold_migrate_def env_cold_raises_def env0_def Let_def emits_def
          set_vm_state_and_notify_def emit_def)
  have eq: "x = (a, world0\<lparr>trace := t\<rparr>)"
    if "fst x = a" and "trace (snd x) = t"
      and "fp_store (snd x) = fp_store world0 \<and> fp_next (snd x) = fp_next world0"
    for x :: "(exn + unit) \<times> world" and a t
    using that by (cases x) (simp add: world0_def)
  have 1: "cold_migrate ?env inst0 flavor0 [] VNone True world0 =
     (Inl (Exn NoValidHost [(''reason'', ''No valid host found for cold migrate'')]),
      world0\<lparr>trace :=
        [SetVmStateAndNotify ''uuid-1'' ''compute_task'' ''migrate_server''
           [(''vm_state'', Some ''active''), (''task_state'', None)] (Exn NoValidHost [])
           [(''num_instances'', VInt 1)]]\<rparr>)"
    using cold_migrate_no_valid_host [OF raised cls, of inst0 flavor0 world0]
    by (intro eq unchanged)
       (simp_all add: env_cold_raises_def env0_def inst0_def flavor0_def world0_def ACTIVE_def)
  have 2: "cold_migrate ?env (inst0\<lparr>vm_state := Some STOPPED\<rparr>) flavor7 [] VNone True world0 =
     (Inl (Exn NoValidHost [(''reason'', ''No valid host found for resize'')]),
      world0\<lparr>trace :=
        [SetVmStateAndNotify ''uuid-1'' ''compute_task'' ''migrate_server''
           [(''vm_state'', Some ''stopped''), (''task_state'', None)] (Exn NoValidHost [])
           [(''num_instances'', VInt 1)]]\<rparr>)"
    using cold_migrate_no_valid_host
            [OF raised cls, of "inst0\<lparr>vm_state := Some STOPPED\<rparr>" flavor7 world0]
    by (intro eq unchanged)
       (simp_all add: env_cold_raises_def env0_def inst0_def flavor7_def world0_def STOPPED_def)
  have 3: "cold_migrate ?env (inst0\<lparr>vm_state := Some RESIZED\<rparr>) flavor7 [] VNone True world0 =
     (Inl (Exn NoValidHost [(''reason'', ''No valid host found for resize'')]),
      world0\<lparr>trace :=
        [SetVmStateAndNotify ''uuid-1'' ''compute_task'' ''migrate_server''
           [(''vm_state'', Some ''resized''), (''task_state'', None)] (Exn NoValidHost [])
           [(''num_instances'', VInt 1)]]\<rparr>)"
    using cold_migrate_no_valid_host
            [OF raised cls, of "inst0\<lparr>vm_state := Some RESIZED\<rparr>" flavor7 world0]
    by (intro eq unchanged)
       (simp_all add: env_cold_raises_def env0_def inst0_def flavor7_def world0_def RESIZED_def)
  have 4: "cold_migrate ?env (inst0\<lparr>vm_state := None\<rparr>) flavor0 [] VNone True world0 =
     (Inl (Exn NoValidHost [(''reason'', ''No valid host found for cold migrate'')]),
      world0\<lparr>trace :=
        [SetVmStateAndNotify ''uuid-1'' ''compute_task'' ''migrate_server''
           [(''vm_state'', Some ''active''), (''task_state'', None)] (Exn NoValidHost [])
           [(''num_instances'', VInt 1)]]\<rparr>)"
    using cold_migrate_no_valid_host
            [OF raised cls, of "inst0\<lparr>vm_state := None\<rparr>" flavor0 world0]
    by (intro eq unchanged)
       (simp_all add: env_cold_raises_def env0_def inst0_def flavor0_def world0_def ACTIVE_def)
  let ?sub = "env_cold_raises (Exn (OtherException ''MaxRetriesExceeded'') [])"
  have raised_sub: "task_raised (cold_task ?sub inst0 flavor7 []
             (build_request_spec ?sub (get_image_from_system_metadata ?sub (system_metadata inst0))
                [inst0] (Some flavor7)) VNone True) =
           Some (Exn (OtherException ''MaxRetriesExceeded'') [])"
    by (simp add: env_cold_raises_def env0_def)
  have cls_sub: "isinstance ?sub (Exn (OtherException ''MaxRetriesExceeded'') []) NoValidHost"
    by (simp add: isinstance_def env_cold_raises_def env0_def)
  have unchanged_sub:
    "fp_store (snd (cold_migrate ?sub inst0 flavor7 [] VNone True world0)) = fp_store world0 \<and>
     fp_next (snd (cold_migrate ?sub inst0 flavor7 [] VNone True world0)) = fp_next world0"
    by (simp add: cold_migrate_def env_cold_raises_def env0_def Let_def emits_def
          set_vm_state_and_notify_def emit_def)
  have 5: "cold_migrate ?sub inst0 flavor7 [] VNone True world0 =
     (Inl (Exn NoValidHost [(''reason'', ''No valid host found for resize'')]),
      world0\<lparr>trace :=
        [SetVmStateAndNotify ''uuid-1'' ''compute_task'' ''migrate_server''
           [(''vm_state'', Some ''active''), (''task_state'', None)]
           (Exn (OtherException ''MaxRetriesExceeded'') [])
           [(''num_instances'', VInt 1)]]\<rparr>)"
    using cold_migrate_no_valid_host [OF raised_sub cls_sub, of world0]
    by (intro eq unchanged_sub)
       (simp_all add: env_cold_raises_def env0_def inst0_def flavor7_def world0_def ACTIVE_def)
  from 1 2 3 4 5 show ?thesis by blast
qed

section \<open>Routing in \<^verbatim>\<open>migrate_server\<close>\<close>












section \<open>Arguments that are objects already\<close>

text \<open>
  Claim C9. An instance that is an object and a flavor that is an object (or no flavor at
  all) pass through the first lines of \<^verbatim>\<open>migrate_server\<close> as they are: the same
  values come out, the world is the same, so no flavor was looked up by id and no
  instance was converted, and the call is the dispatch on these very values, under the
  decorator; replacing the two lookup functions by any others changes nothing. What comes
  out of the two steps passes through them unchanged when they are applied again.
\<close>

theorem migrate_server_normalize_idempotent:
  "normalize_instance env (InstanceObj i) w = (InstanceObj i, w) \<and>
   normalize_flavor env (FlavorObj f) w = (Inr (FlavorObj f), w) \<and>
   normalize_flavor env FlavorNone w = (Inr FlavorNone, w) \<and>
   migrate_server env (InstanceObj i) sh live rebuild (FlavorObj f) bm doc res cs w =
     expected_exceptions env migrate_expected_classes
       (dispatch_migrate env (InstanceObj i) sh live rebuild (FlavorObj f) bm doc res cs w) \<and>
   migrate_server env (InstanceObj i) sh live rebuild FlavorNone bm doc res cs w =
     expected_exceptions env migrate_expected_classes
       (dispatch_migrate env (InstanceObj i) sh live rebuild FlavorNone bm doc res cs w) \<and>
   migrate_server (env\<lparr>flavor_get_by_id := g, instance_from_db_object := h\<rparr>)
       (InstanceObj i) sh live rebuild (FlavorObj f) bm doc res cs w =
     migrate_server env (InstanceObj i) sh live rebuild (FlavorObj f) bm doc res cs w \<and>
   (normalize_instance env a w = (a', w') \<longrightarrow> normalize_instance env a' w'' = (a', w'')) \<and>
   (normalize_flavor env fl w = (Inr fl', w') \<longrightarrow> normalize_flavor env fl' w'' = (Inr fl', w''))"
proof -
  have ni: "normalize_instance e (InstanceObj i) w = (InstanceObj i, w)" for e
    by (simp add: normalize_instance_def)
  have nf: "normalize_flavor e (FlavorObj f) w = (Inr (FlavorObj f), w)" for e
    by (simp add: normalize_flavor_def)
  have nn: "normalize_flavor env FlavorNone w = (Inr FlavorNone, w)"
    by (simp add: normalize_flavor_def)
  have ms: "migrate_server e (InstanceObj i) sh live rebuild (FlavorObj f) bm doc res cs w =
     expected_exceptions e migrate_expected_classes
       (dispatch_migrate e (InstanceObj i) sh live rebuild (FlavorObj f) bm doc res cs w)" for e
    by (simp add: migrate_server_def ni nf)
  have msn: "migrate_server env (InstanceObj i) sh live rebuild FlavorNone bm doc res cs w =
     expected_exceptions env migrate_expected_classes
       (dispatch_migrate env (InstanceObj i) sh live rebuild FlavorNone bm doc res cs w)"
    by (simp add: migrate_server_def ni nn)
  have ii: "isinstance (env\<lparr>flavor_get_by_id := g, instance_from_db_object := h\<rparr>) =
      isinstance env"
    by (intro ext) (simp add: isinstance_def)
  have cc: "caught (env\<lparr>flavor_get_by_id := g, instance_from_db_object := h\<rparr>) =
      caught env"
    by (intro ext) (simp add: caught_def ii)
  have cm: "cold_migrate (env\<lparr>flavor_get_by_id := g, instance_from_db_object := h\<rparr>) =
      cold_migrate env"
    by (intro ext) (simp add: cold_migrate_def ii cong: option.case_cong if_cong)
  have lm: "live_migrate (env\<lparr>flavor_get_by_id := g, instance_from_db_object := h\<rparr>) =
      live_migrate env"
    by (intro ext) (simp add: live_migrate_def cc cong: option.case_cong if_cong)
  have ee: "expected_exceptions (env\<lparr>flavor_get_by_id := g, instance_from_db_object := h\<rparr>) c r =
      expected_exceptions env c r" for c and r :: "(exn + unit) \<times> world"
    by (simp add: expected_exceptions_def cc split: prod.splits sum.splits)
  have indep: "dispatch_migrate (env\<lparr>flavor_get_by_id := g, instance_from_db_object := h\<rparr>)
       (InstanceObj i) sh live rebuild (FlavorObj f) bm doc res cs w =
     dispatch_migrate env (InstanceObj i) sh live rebuild (FlavorObj f) bm doc res cs w"
    by (simp add: dispatch_migrate_def cm lm cong: option.case_cong)
  have idem_i: "normalize_instance env a' w'' = (a', w'')"
    if "normalize_instance env a w = (a', w')"
    using that by (cases a) (auto simp: normalize_instance_def split: if_splits)
  have idem_f: "normalize_flavor env fl' w'' = (Inr fl', w'')"
    if "normalize_flavor env fl w = (Inr fl', w')"
    using that
    by (cases fl)
       (auto simp: normalize_flavor_def Let_def split: option.splits sum.splits if_splits)
  from ni nf nn ms msn indep idem_i idem_f show ?thesis
    by (simp add: ms ee)
qed

theorem migrate_server_normalize_idempotent_witness:
  "normalize_instance env0 (InstanceDict [(''uuid'', VStr ''uuid-1'')]) world0 =
     (InstanceObj inst0, emit (InstanceFromDbObject [(''uuid'', VStr ''uuid-1'')]) world0) \<and>
   normalize_instance env0 (InstanceObj inst0) world0 = (InstanceObj inst0, world0) \<and>
   normalize_flavor env0 (FlavorDict [(''id'', VInt 7)]) world0 =
     (Inr (FlavorObj flavor7), emit (FlavorGetById (VInt 7)) world0) \<and>
   normalize_flavor env0 (FlavorObj flavor7) world0 = (Inr (FlavorObj flavor7), world0)"
proof -
  have a: "normalize_instance env0 (InstanceDict [(''uuid'', VStr ''uuid-1'')]) world0 =
     (InstanceObj inst0, emit (InstanceFromDbObject [(''uuid'', VStr ''uuid-1'')]) world0)"
    by (simp add: normalize_instance_def env0_def)
  have b: "normalize_flavor env0 (FlavorDict [(''id'', VInt 7)]) world0 =
     (Inr (FlavorObj flavor7), emit (FlavorGetById (VInt 7)) world0)"
    by (simp add: normalize_flavor_def env0_def)
  note at_instance = migrate_server_normalize_idempotent
    [where env = env0 and w = world0 and w'' = world0
       and a = "InstanceDict [(''uuid'', VStr ''uuid-1'')]" and a' = "InstanceObj inst0"
       and w' = "emit (InstanceFromDbObject [(''uuid'', VStr ''uuid-1'')]) world0"
       and fl = "FlavorDict [(''id'', VInt 7)]" and fl' = "FlavorObj flavor7"]
  from at_instance a have c: "normalize_instance env0 (InstanceObj inst0) world0 =
      (InstanceObj inst0, world0)"
    by blast
  note at_flavor = migrate_server_normalize_idempotent
    [where env = env0 and w = world0 and w'' = world0
       and fl = "FlavorDict [(''id'', VInt 7)]" and fl' = "FlavorObj flavor7"
       and w' = "emit (FlavorGetById (VInt 7)) world0"]
  from at_flavor b have d: "normalize_flavor env0 (FlavorObj flavor7) world0 =
      (Inr (FlavorObj flavor7), world0)"
    by blast
  from a b c d show ?thesis by blast
qed

section \<open>Unshelving: the four ways\<close>

lemma unshelve_shelved:
  assumes "vm_state inst = Some SHELVED"
  shows "fst (unshelve_instance env inst w) = Inr () \<and>
         trace (snd (unshelve_instance env inst w)) =
           trace w @ [InstanceSave (inst\<lparr>task_state := Some POWERING_ON\<rparr>) (Some UNSHELVING),
                      Rpc_start_instance (inst\<lparr>task_state := Some POWERING_ON\<rparr>)]"
  using assms by (simp add: unshelve_instance_def Let_def)

lemma shelved_neq: "SHELVED \<noteq> SHELVED_OFFLOADED"
  by (simp add: SHELVED_def SHELVED_OFFLOADED_def)

lemma unshelve_other:
  assumes "vm_state inst \<noteq> Some SHELVED" "vm_state inst \<noteq> Some SHELVED_OFFLOADED"
  shows "fst (unshelve_instance env inst w) = Inr () \<and>
         trace (snd (unshelve_instance env inst w)) =
           trace w @ [Log ''error''
                        ''Unshelve attempted but vm_state not SHELVED or SHELVED_OFFLOADED'',
                      InstanceSave (inst\<lparr>vm_state := Some ERROR\<rparr>) None]"
  using assms by (simp add: unshelve_instance_def Let_def)

lemma find_image_none:
  assumes "map_of sys_meta ''shelved_image_id'' = None \<or>
           map_of sys_meta ''shelved_image_id'' = Some []"
  shows "unshelve_find_image env sys_meta inst w = (Inr VNone, w)"
  using assms by (auto simp: unshelve_find_image_def)

lemma find_image_found:
  assumes "map_of sys_meta ''shelved_image_id'' = Some s" "s \<noteq> []" "image_get env s = Inr img"
  shows "unshelve_find_image env sys_meta inst w =
           (Inr img, emit (EventFinish ''get_image_info'' (uuid inst) None)
                       (emit (ImageGet s) (emit (EventStart ''get_image_info'' (uuid inst)) w)))"
  using assms
  by (simp add: unshelve_find_image_def unshelve_get_image_def EventReporter_def
        safe_image_show_def)

lemma find_image_missing:
  assumes "map_of sys_meta ''shelved_image_id'' = Some s" "s \<noteq> []" "image_get env s = Inl e"
    "isinstance env e ImageNotFound"
  shows "fst (unshelve_find_image env sys_meta inst w) =
           Inl (Exn UnshelveException
                 [(''instance_id'', uuid inst),
                  (''reason'', ''Unshelve attempted but the image '' @ s @ '' cannot be found.'')]) \<and>
         trace (snd (unshelve_find_image env sys_meta inst w)) =
           trace w @
           [EventStart ''get_image_info'' (uuid inst), ImageGet s,
            InstanceSave (inst\<lparr>vm_state := Some ERROR\<rparr>) None,
            Log ''error'' (''Unshelve attempted but the image '' @ s @ '' cannot be found.''),
            EventFinish ''get_image_info'' (uuid inst)
              (Some (Exn UnshelveException
                 [(''instance_id'', uuid inst),
                  (''reason'', ''Unshelve attempted but the image '' @ s @ '' cannot be found.'')]))]"
  using assms
  by (simp add: unshelve_find_image_def unshelve_get_image_def EventReporter_def
        safe_image_show_def Let_def)

lemma unshelve_schedule_ok:
  assumes "populate_retry env [] (uuid inst) = Inr fpa"
    and "setup_instance_group env (build_request_spec env img [inst] None) fpa = Inr fpb"
    and "select_destinations env (build_request_spec env img [inst] None) fpb = Inr (h # hs)"
  shows "fst (unshelve_schedule env inst img w) = Inr () \<and>
         trace (snd (unshelve_schedule env inst img w)) =
           trace w @
           [EventStart ''schedule_instances'' (uuid inst),
            SelectDestinations (build_request_spec env img [inst] None) fpb,
            Rpc_unshelve_instance inst (hs_host h) img
              (populate_filter_properties env fpb h) (hs_nodename h),
            EventFinish ''schedule_instances'' (uuid inst) None]"
  using assms
  by (simp add: unshelve_schedule_def schedule_instances_def EventReporter_def Let_def)

lemma unshelve_offloaded_scheduled:
  assumes "vm_state inst = Some SHELVED_OFFLOADED"
    and "unshelve_find_image env (system_metadata inst) inst w = (Inr img, wa)"
    and "fst (unshelve_schedule env inst img wa) = Inr ()"
  shows "unshelve_instance env inst w = (Inr (), snd (unshelve_schedule env inst img wa))"
  using assms shelved_neq
  by (cases "unshelve_schedule env inst img wa")
     (auto simp add: unshelve_instance_def Let_def)

lemma unshelve_offloaded_image_failed:
  assumes "vm_state inst = Some SHELVED_OFFLOADED"
    and "unshelve_find_image env (system_metadata inst) inst w = (Inl e, wa)"
  shows "unshelve_instance env inst w = (Inl e, wa)"
  using assms shelved_neq
  by (auto simp add: unshelve_instance_def Let_def)

lemma unshelve_schedule_failed_quiet:
  assumes "unshelve_schedule env inst img w = (Inl e, w')"
  shows "\<exists>es. trace w' = trace w @ es \<and> (\<forall>x\<in>set es. \<not> is_dispatch x)"
  using assms
  by (auto simp: unshelve_schedule_def schedule_instances_def EventReporter_def Let_def
        split: sum.splits list.splits prod.splits)

lemma unshelve_no_valid_host:
  assumes "vm_state inst = Some SHELVED_OFFLOADED"
    and "unshelve_find_image env (system_metadata inst) inst w = (Inr img, wa)"
    and "unshelve_schedule env inst img wa = (Inl e, wb)"
    and "isinstance env e NoValidHost \<or> isinstance env e UnsupportedPolicyException"
  shows "fst (unshelve_instance env inst w) = Inr () \<and>
         trace (snd (unshelve_instance env inst w)) =
           trace wb @ [InstanceSave (inst\<lparr>task_state := None\<rparr>) None,
                       Log ''warning'' ''No valid host found for unshelve instance'']"
  using assms shelved_neq
  by (auto simp add: unshelve_instance_def Let_def)

text \<open>
  Claim C7. \<^verbatim>\<open>unshelve_instance\<close> looks at the instance's \<^verbatim>\<open>vm_state\<close>.
  From \<open>shelved\<close> it sets the task state to powering-on, saves expecting \<open>unshelving\<close>
  and dispatches \<^verbatim>\<open>start_instance\<close>; nothing else happens, so there is no scheduling.
  From \<open>shelved_offloaded\<close> with a recorded image id the image service does not know, it
  sets \<^verbatim>\<open>vm_state\<close> to \<open>error\<close>, saves, and raises \<open>UnshelveException\<close> naming the
  image. From \<open>shelved_offloaded\<close> with no recorded image id, or with one that resolves,
  it schedules the one instance with the retry context \<^verbatim>\<open>populate_retry\<close> made and, when
  the scheduler returns hosts, dispatches \<^verbatim>\<open>unshelve_instance\<close> to the first of them.
  From any other state it logs an error, sets \<^verbatim>\<open>vm_state\<close> to \<open>error\<close>, saves, and
  returns with no dispatch.
\<close>

theorem unshelve_instance_state_machine:
  "(vm_state inst = Some SHELVED \<longrightarrow>
      fst (unshelve_instance env inst w) = Inr () \<and>
      trace (snd (unshelve_instance env inst w)) =
        trace w @ [InstanceSave (inst\<lparr>task_state := Some POWERING_ON\<rparr>) (Some UNSHELVING),
                   Rpc_start_instance (inst\<lparr>task_state := Some POWERING_ON\<rparr>)]) \<and>
   (vm_state inst = Some SHELVED_OFFLOADED \<and>
    map_of (system_metadata inst) ''shelved_image_id'' = Some s \<and> s \<noteq> [] \<and>
    image_get env s = Inl e \<and> isinstance env e ImageNotFound \<longrightarrow>
      fst (unshelve_instance env inst w) =
        Inl (Exn UnshelveException
              [(''instance_id'', uuid inst),
               (''reason'', ''Unshelve attempted but the image '' @ s @ '' cannot be found.'')]) \<and>
      trace (snd (unshelve_instance env inst w)) =
        trace w @
        [EventStart ''get_image_info'' (uuid inst), ImageGet s,
         InstanceSave (inst\<lparr>vm_state := Some ERROR\<rparr>) None,
         Log ''error'' (''Unshelve attempted but the image '' @ s @ '' cannot be found.''),
         EventFinish ''get_image_info'' (uuid inst)
           (Some (Exn UnshelveException
              [(''instance_id'', uuid inst),
               (''reason'',
                ''Unshelve attempted but the image '' @ s @ '' cannot be found.'')]))]) \<and>
   (map_of (system_metadata inst) ''shelved_image_id'' = None \<or>
    map_of (system_metadata inst) ''shelved_image_id'' = Some [] \<longrightarrow>
      unshelve_find_image env (system_metadata inst) inst w = (Inr VNone, w)) \<and>
   (map_of (system_metadata inst) ''shelved_image_id'' = Some s \<and> s \<noteq> [] \<and>
    image_get env s = Inr img \<longrightarrow>
      unshelve_find_image env (system_metadata inst) inst w =
        (Inr img, emit (EventFinish ''get_image_info'' (uuid inst) None)
                    (emit (ImageGet s)
                       (emit (EventStart ''get_image_info'' (uuid inst)) w)))) \<and>
   (vm_state inst = Some SHELVED_OFFLOADED \<and>
    unshelve_find_image env (system_metadata inst) inst w = (Inr img, wa) \<and>
    populate_retry env [] (uuid inst) = Inr fpa \<and>
    setup_instance_group env (build_request_spec env img [inst] None) fpa = Inr fpb \<and>
    select_destinations env (build_request_spec env img [inst] None) fpb = Inr (h # hs) \<longrightarrow>
      fst (unshelve_instance env inst w) = Inr () \<and>
      trace (snd (unshelve_instance env inst w)) =
        trace wa @
        [EventStart ''schedule_instances'' (uuid inst),
         SelectDestinations (build_request_spec env img [inst] None) fpb,
         Rpc_unshelve_instance inst (hs_host h) img
           (populate_filter_properties env fpb h) (hs_nodename h),
         EventFinish ''schedule_instances'' (uuid inst) None]) \<and>
   (vm_state inst \<noteq> Some SHELVED \<and> vm_state inst \<noteq> Some SHELVED_OFFLOADED \<longrightarrow>
      fst (unshelve_instance env inst w) = Inr () \<and>
      trace (snd (unshelve_instance env inst w)) =
        trace w @ [Log ''error''
                     ''Unshelve attempted but vm_state not SHELVED or SHELVED_OFFLOADED'',
                   InstanceSave (inst\<lparr>vm_state := Some ERROR\<rparr>) None])"
proof (intro conjI impI)
  assume "vm_state inst = Some SHELVED"
  then show "fst (unshelve_instance env inst w) = Inr ()"
    and "trace (snd (unshelve_instance env inst w)) =
        trace w @ [InstanceSave (inst\<lparr>task_state := Some POWERING_ON\<rparr>) (Some UNSHELVING),
                   Rpc_start_instance (inst\<lparr>task_state := Some POWERING_ON\<rparr>)]"
    using unshelve_shelved by blast+
next
  assume a: "vm_state inst = Some SHELVED_OFFLOADED \<and>
    map_of (system_metadata inst) ''shelved_image_id'' = Some s \<and> s \<noteq> [] \<and>
    image_get env s = Inl e \<and> isinstance env e ImageNotFound"
  then have m: "fst (unshelve_find_image env (system_metadata inst) inst w) =
           Inl (Exn UnshelveException
                 [(''instance_id'', uuid inst),
                  (''reason'', ''Unshelve attempted but the image '' @ s @ '' cannot be found.'')]) \<and>
         trace (snd (unshelve_find_image env (system_metadata inst) inst w)) =
           trace w @
           [EventStart ''get_image_info'' (uuid inst), ImageGet s,
            InstanceSave (inst\<lparr>vm_state := Some ERROR\<rparr>) None,
            Log ''error'' (''Unshelve attempted but the image '' @ s @ '' cannot be found.''),
            EventFinish ''get_image_info'' (uuid inst)
              (Some (Exn UnshelveException
                 [(''instance_id'', uuid inst),
                  (''reason'', ''Unshelve attempted but the image '' @ s @ '' cannot be found.'')]))]"
    using find_image_missing by blast
  have "unshelve_instance env inst w =
      (Inl (Exn UnshelveException
                 [(''instance_id'', uuid inst),
                  (''reason'', ''Unshelve attempted but the image '' @ s @ '' cannot be found.'')]),
       snd (unshelve_find_image env (system_metadata inst) inst w))"
    using a m
    by (intro unshelve_offloaded_image_failed)
       (auto simp: prod_eq_iff)
  with m show "fst (unshelve_instance env inst w) =
        Inl (Exn UnshelveException
              [(''instance_id'', uuid inst),
               (''reason'', ''Unshelve attempted but the image '' @ s @ '' cannot be found.'')])"
    and "trace (snd (unshelve_instance env inst w)) =
        trace w @
        [EventStart ''get_image_info'' (uuid inst), ImageGet s,
         InstanceSave (inst\<lparr>vm_state := Some ERROR\<rparr>) None,
         Log ''error'' (''Unshelve attempted but the image '' @ s @ '' cannot be found.''),
         EventFinish ''get_image_info'' (uuid inst)
           (Some (Exn UnshelveException
              [(''instance_id'', uuid inst),
               (''reason'',
                ''Unshelve attempted but the image '' @ s @ '' cannot be found.'')]))]"
    by simp_all
next
  assume "map_of (system_metadata inst) ''shelved_image_id'' = None \<or>
    map_of (system_metadata inst) ''shelved_image_id'' = Some []"
  then show "unshelve_find_image env (system_metadata inst) inst w = (Inr VNone, w)"
    by (rule find_image_none)
next
  assume "map_of (system_metadata inst) ''shelved_image_id'' = Some s \<and> s \<noteq> [] \<and>
    image_get env s = Inr img"
  then show "unshelve_find_image env (system_metadata inst) inst w =
        (Inr img, emit (EventFinish ''get_image_info'' (uuid inst) None)
                    (emit (ImageGet s)
                       (emit (EventStart ''get_image_info'' (uuid inst)) w)))"
    using find_image_found by blast
next
  assume a: "vm_state inst = Some SHELVED_OFFLOADED \<and>
    unshelve_find_image env (system_metadata inst) inst w = (Inr img, wa) \<and>
    populate_retry env [] (uuid inst) = Inr fpa \<and>
    setup_instance_group env (build_request_spec env img [inst] None) fpa = Inr fpb \<and>
    select_destinations env (build_request_spec env img [inst] None) fpb = Inr (h # hs)"
  then have ok: "fst (unshelve_schedule env inst img wa) = Inr () \<and>
         trace (snd (unshelve_schedule env inst img wa)) =
           trace wa @
           [EventStart ''schedule_instances'' (uuid inst),
            SelectDestinations (build_request_spec env img [inst] None) fpb,
            Rpc_unshelve_instance inst (hs_host h) img
              (populate_filter_properties env fpb h) (hs_nodename h),
            EventFinish ''schedule_instances'' (uuid inst) None]"
    using unshelve_schedule_ok by blast
  with a have "unshelve_instance env inst w =
      (Inr (), snd (unshelve_schedule env inst img wa))"
    using unshelve_offloaded_scheduled by blast
  with ok show "fst (unshelve_instance env inst w) = Inr ()"
    and "trace (snd (unshelve_instance env inst w)) =
        trace wa @
        [EventStart ''schedule_instances'' (uuid inst),
         SelectDestinations (build_request_spec env img [inst] None) fpb,
         Rpc_unshelve_instance inst (hs_host h) img
           (populate_filter_properties env fpb h) (hs_nodename h),
         EventFinish ''schedule_instances'' (uuid inst) None]"
    by simp_all
next
  assume "vm_state inst \<noteq> Some SHELVED \<and> vm_state inst \<noteq> Some SHELVED_OFFLOADED"
  then show "fst (unshelve_instance env inst w) = Inr ()"
    and "trace (snd (unshelve_instance env inst w)) =
        trace w @ [Log ''error''
                     ''Unshelve attempted but vm_state not SHELVED or SHELVED_OFFLOADED'',
                   InstanceSave (inst\<lparr>vm_state := Some ERROR\<rparr>) None]"
    using unshelve_other by blast+
qed

theorem unshelve_instance_state_machine_witness:
  "fst (unshelve_instance env0 inst_shelved world0) = Inr () \<and>
   trace (snd (unshelve_instance env0 inst_shelved world0)) =
     [InstanceSave (inst_shelved\<lparr>task_state := Some ''powering-on''\<rparr>) (Some ''unshelving''),
      Rpc_start_instance (inst_shelved\<lparr>task_state := Some ''powering-on''\<rparr>)] \<and>
   fst (unshelve_instance env_image_missing inst_offloaded world0) =
     Inl (Exn UnshelveException
           [(''instance_id'', ''uuid-1''),
            (''reason'', ''Unshelve attempted but the image img-1 cannot be found.'')]) \<and>
   trace (snd (unshelve_instance env_image_missing inst_offloaded world0)) =
     [EventStart ''get_image_info'' ''uuid-1'', ImageGet ''img-1'',
      InstanceSave (inst_offloaded\<lparr>vm_state := Some ''error''\<rparr>) None,
      Log ''error'' ''Unshelve attempted but the image img-1 cannot be found.'',
      EventFinish ''get_image_info'' ''uuid-1''
        (Some (Exn UnshelveException
           [(''instance_id'', ''uuid-1''),
            (''reason'', ''Unshelve attempted but the image img-1 cannot be found.'')]))] \<and>
   fst (unshelve_instance env0 inst_offloaded world0) = Inr () \<and>
   trace (snd (unshelve_instance env0 inst_offloaded world0)) =
     [EventStart ''get_image_info'' ''uuid-1'', ImageGet ''img-1'',
      EventFinish ''get_image_info'' ''uuid-1'' None,
      EventStart ''schedule_instances'' ''uuid-1'',
      SelectDestinations [(''num_instances'', VInt 1)] [(''retry'', VStr ''uuid-1'')],
      Rpc_unshelve_instance inst_offloaded ''host-1'' (VDict [])
        [(''retry'', VStr ''uuid-1''), (''limits'', VDict [])] ''node-1'',
      EventFinish ''schedule_instances'' ''uuid-1'' None] \<and>
   fst (unshelve_instance env0 inst0 world0) = Inr () \<and>
   trace (snd (unshelve_instance env0 inst0 world0)) =
     [Log ''error'' ''Unshelve attempted but vm_state not SHELVED or SHELVED_OFFLOADED'',
      InstanceSave (inst0\<lparr>vm_state := Some ''error''\<rparr>) None]"
proof -
  have u [simp]: "uuid inst_shelved = ''uuid-1''" "uuid inst_offloaded = ''uuid-1''"
    "uuid inst0 = ''uuid-1''"
    by (simp_all add: inst_shelved_def inst_offloaded_def inst0_def)
  have sm [simp]: "system_metadata inst_offloaded = [(''shelved_image_id'', ''img-1'')]"
    by (simp add: inst_offloaded_def)
  have vs [simp]: "vm_state inst_shelved = Some SHELVED"
    "vm_state inst_offloaded = Some SHELVED_OFFLOADED" "vm_state inst0 = Some ACTIVE"
    by (simp_all add: inst_shelved_def inst_offloaded_def inst0_def)
  have t0 [simp]: "trace world0 = []"
    by (simp add: world0_def)
  have 1: "fst (unshelve_instance env0 inst_shelved world0) = Inr () \<and>
     trace (snd (unshelve_instance env0 inst_shelved world0)) =
     [InstanceSave (inst_shelved\<lparr>task_state := Some ''powering-on''\<rparr>) (Some ''unshelving''),
      Rpc_start_instance (inst_shelved\<lparr>task_state := Some ''powering-on''\<rparr>)]"
    using unshelve_instance_state_machine [where inst = inst_shelved and env = env0 and w = world0]
    by (simp add: POWERING_ON_def UNSHELVING_def)
  have 2: "fst (unshelve_instance env_image_missing inst_offloaded world0) =
     Inl (Exn UnshelveException
           [(''instance_id'', ''uuid-1''),
            (''reason'', ''Unshelve attempted but the image img-1 cannot be found.'')]) \<and>
   trace (snd (unshelve_instance env_image_missing inst_offloaded world0)) =
     [EventStart ''get_image_info'' ''uuid-1'', ImageGet ''img-1'',
      InstanceSave (inst_offloaded\<lparr>vm_state := Some ''error''\<rparr>) None,
      Log ''error'' ''Unshelve attempted but the image img-1 cannot be found.'',
      EventFinish ''get_image_info'' ''uuid-1''
        (Some (Exn UnshelveException
           [(''instance_id'', ''uuid-1''),
            (''reason'', ''Unshelve attempted but the image img-1 cannot be found.'')]))]"
    using unshelve_instance_state_machine [where inst = inst_offloaded and env = env_image_missing and w = world0
                and s = "''img-1''" and e = "Exn ImageNotFound [(''image_id'', ''img-1'')]"]
    by (simp add: env_image_missing_def ERROR_def isinstance_def)
  have 3: "fst (unshelve_instance env0 inst_offloaded world0) = Inr () \<and>
   trace (snd (unshelve_instance env0 inst_offloaded world0)) =
     [EventStart ''get_image_info'' ''uuid-1'', ImageGet ''img-1'',
      EventFinish ''get_image_info'' ''uuid-1'' None,
      EventStart ''schedule_instances'' ''uuid-1'',
      SelectDestinations [(''num_instances'', VInt 1)] [(''retry'', VStr ''uuid-1'')],
      Rpc_unshelve_instance inst_offloaded ''host-1'' (VDict [])
        [(''retry'', VStr ''uuid-1''), (''limits'', VDict [])] ''node-1'',
      EventFinish ''schedule_instances'' ''uuid-1'' None]"
    using unshelve_instance_state_machine [where inst = inst_offloaded and env = env0 and w = world0
                and s = "''img-1''" and img = "VDict []"
                and wa = "emit (EventFinish ''get_image_info'' ''uuid-1'' None)
                    (emit (ImageGet ''img-1'')
                       (emit (EventStart ''get_image_info'' ''uuid-1'') world0))"
                and fpa = "[(''retry'', VStr ''uuid-1'')]"
                and fpb = "[(''retry'', VStr ''uuid-1'')]" and h = host1 and hs = "[]"]
    by (simp add: env0_def host1_def)
  have 4: "fst (unshelve_instance env0 inst0 world0) = Inr () \<and>
   trace (snd (unshelve_instance env0 inst0 world0)) =
     [Log ''error'' ''Unshelve attempted but vm_state not SHELVED or SHELVED_OFFLOADED'',
      InstanceSave (inst0\<lparr>vm_state := Some ''error''\<rparr>) None]"
    using unshelve_instance_state_machine [where inst = inst0 and env = env0 and w = world0]
    by (simp add: ACTIVE_def SHELVED_def SHELVED_OFFLOADED_def ERROR_def)
  from 1 2 3 4 show ?thesis by blast
qed

section \<open>Unshelving when no host is found\<close>

lemma find_image_quiet:
  assumes "unshelve_find_image env sm inst w = (r, w')"
  shows "\<exists>es. trace w' = trace w @ es \<and> (\<forall>x\<in>set es. \<not> is_dispatch x)"
  using assms
  by (auto simp: unshelve_find_image_def unshelve_get_image_def EventReporter_def
        safe_image_show_def Let_def split: option.splits if_splits sum.splits)

lemma unshelve_schedule_select_failed:
  assumes "populate_retry env [] (uuid inst) = Inr fpa"
    and "setup_instance_group env (build_request_spec env img [inst] None) fpa = Inr fpb"
    and "select_destinations env (build_request_spec env img [inst] None) fpb = Inl e"
  shows "unshelve_schedule env inst img w =
           (Inl e, emit (EventFinish ''schedule_instances'' (uuid inst) (Some e))
                     (emit (SelectDestinations (build_request_spec env img [inst] None) fpb)
                        (emit (EventStart ''schedule_instances'' (uuid inst)) w)))"
  using assms
  by (simp add: unshelve_schedule_def schedule_instances_def EventReporter_def Let_def)

text \<open>
  Claim C10. For an instance in \<open>shelved_offloaded\<close> whose image step succeeded, when
  the scheduling step raises an instance of \<open>NoValidHost\<close> or of
  \<open>UnsupportedPolicyException\<close> (of the class or of a subclass) the call returns
  normally: after the events of the failed scheduling it saves the instance with
  \<^verbatim>\<open>task_state\<close> \<^verbatim>\<open>None\<close> and logs a warning. The saved object still has
  \<^verbatim>\<open>vm_state\<close> \<open>shelved_offloaded\<close>, and no event of the whole call is a remote
  dispatch. When it is the scheduler's \<^verbatim>\<open>select_destinations\<close> that raises, the
  events of the scheduling step are the start of the action event, the scheduler call and
  the finish of the action event with the exception.
\<close>

theorem unshelve_no_valid_host_returns:
  assumes "vm_state inst = Some SHELVED_OFFLOADED"
    and "unshelve_find_image env (system_metadata inst) inst w = (Inr img, wa)"
    and "unshelve_schedule env inst img wa = (Inl e, wb)"
    and "isinstance env e NoValidHost \<or> isinstance env e UnsupportedPolicyException"
  shows "fst (unshelve_instance env inst w) = Inr () \<and>
         trace (snd (unshelve_instance env inst w)) =
           trace wb @ [InstanceSave (inst\<lparr>task_state := None\<rparr>) None,
                       Log ''warning'' ''No valid host found for unshelve instance''] \<and>
         vm_state (inst\<lparr>task_state := None\<rparr>) = Some SHELVED_OFFLOADED \<and>
         (\<exists>es. trace (snd (unshelve_instance env inst w)) = trace w @ es \<and>
               (\<forall>x\<in>set es. \<not> is_dispatch x)) \<and>
         (populate_retry env [] (uuid inst) = Inr fpa \<and>
          setup_instance_group env (build_request_spec env img [inst] None) fpa = Inr fpb \<and>
          select_destinations env (build_request_spec env img [inst] None) fpb = Inl e \<longrightarrow>
            wb = emit (EventFinish ''schedule_instances'' (uuid inst) (Some e))
                   (emit (SelectDestinations (build_request_spec env img [inst] None) fpb)
                      (emit (EventStart ''schedule_instances'' (uuid inst)) wa)))"
proof -
  have main: "fst (unshelve_instance env inst w) = Inr () \<and>
         trace (snd (unshelve_instance env inst w)) =
           trace wb @ [InstanceSave (inst\<lparr>task_state := None\<rparr>) None,
                       Log ''warning'' ''No valid host found for unshelve instance'']"
    using assms by (rule unshelve_no_valid_host)
  have kept: "vm_state (inst\<lparr>task_state := None\<rparr>) = Some SHELVED_OFFLOADED"
    using assms(1) by simp
  obtain es1 where 1: "trace wa = trace w @ es1" "\<forall>x\<in>set es1. \<not> is_dispatch x"
    using find_image_quiet [OF assms(2)] by blast
  obtain es2 where 2: "trace wb = trace wa @ es2" "\<forall>x\<in>set es2. \<not> is_dispatch x"
    using unshelve_schedule_failed_quiet [OF assms(3)] by blast
  let ?es = "es1 @ es2 @ [InstanceSave (inst\<lparr>task_state := None\<rparr>) None,
                       Log ''warning'' ''No valid host found for unshelve instance'']"
  have "trace (snd (unshelve_instance env inst w)) = trace w @ ?es \<and>
        (\<forall>x\<in>set ?es. \<not> is_dispatch x)"
    using main 1 2 by auto
  then have quiet: "\<exists>es. trace (snd (unshelve_instance env inst w)) = trace w @ es \<and>
               (\<forall>x\<in>set es. \<not> is_dispatch x)"
    by blast
  have sel: "wb = emit (EventFinish ''schedule_instances'' (uuid inst) (Some e))
                   (emit (SelectDestinations (build_request_spec env img [inst] None) fpb)
                      (emit (EventStart ''schedule_instances'' (uuid inst)) wa))"
    if "populate_retry env [] (uuid inst) = Inr fpa \<and>
          setup_instance_group env (build_request_spec env img [inst] None) fpa = Inr fpb \<and>
          select_destinations env (build_request_spec env img [inst] None) fpb = Inl e"
    using unshelve_schedule_select_failed [of env inst fpa img fpb e wa] that assms(3) by simp
  from main kept quiet sel show ?thesis by blast
qed

theorem unshelve_no_valid_host_returns_witness:
  "fst (unshelve_instance (env_no_host (Exn NoValidHost [])) inst_offloaded world0) = Inr () \<and>
   trace (snd (unshelve_instance (env_no_host (Exn NoValidHost [])) inst_offloaded world0)) =
     [EventStart ''get_image_info'' ''uuid-1'', ImageGet ''img-1'',
      EventFinish ''get_image_info'' ''uuid-1'' None,
      EventStart ''schedule_instances'' ''uuid-1'',
      SelectDestinations [(''num_instances'', VInt 1)] [(''retry'', VStr ''uuid-1'')],
      EventFinish ''schedule_instances'' ''uuid-1'' (Some (Exn NoValidHost [])),
      InstanceSave (inst_offloaded\<lparr>task_state := None\<rparr>) None,
      Log ''warning'' ''No valid host found for unshelve instance''] \<and>
   vm_state (inst_offloaded\<lparr>task_state := None\<rparr>) = Some ''shelved_offloaded''"
proof -
  let ?env = "env_no_host (Exn NoValidHost [])"
  let ?wa = "emit (EventFinish ''get_image_info'' ''uuid-1'' None)
               (emit (ImageGet ''img-1'') (emit (EventStart ''get_image_info'' ''uuid-1'') world0))"
  let ?wb = "emit (EventFinish ''schedule_instances'' ''uuid-1'' (Some (Exn NoValidHost [])))
               (emit (SelectDestinations [(''num_instances'', VInt 1)] [(''retry'', VStr ''uuid-1'')])
                  (emit (EventStart ''schedule_instances'' ''uuid-1'') ?wa))"
  have a: "vm_state inst_offloaded = Some SHELVED_OFFLOADED"
    by (simp add: inst_offloaded_def)
  have b: "unshelve_find_image ?env (system_metadata inst_offloaded) inst_offloaded world0 =
      (Inr (VDict []), ?wa)"
    by (simp add: unshelve_find_image_def unshelve_get_image_def EventReporter_def
          safe_image_show_def env_no_host_def env0_def inst_offloaded_def inst0_def)
  have c: "unshelve_schedule ?env inst_offloaded (VDict []) ?wa = (Inl (Exn NoValidHost []), ?wb)"
    by (simp add: unshelve_schedule_def schedule_instances_def EventReporter_def Let_def
          env_no_host_def env0_def inst_offloaded_def inst0_def)
  have d: "isinstance ?env (Exn NoValidHost []) NoValidHost \<or>
           isinstance ?env (Exn NoValidHost []) UnsupportedPolicyException"
    by (simp add: isinstance_def)
  from unshelve_no_valid_host_returns
         [OF a b c d, where fpa = "[(''retry'', VStr ''uuid-1'')]"
            and fpb = "[(''retry'', VStr ''uuid-1'')]"]
  show ?thesis
    by (simp add: world0_def SHELVED_OFFLOADED_def inst_offloaded_def)
qed

section \<open>Rebuilding: with and without a host\<close>

lemma rebuild_select_host_quiet:
  assumes "rebuild_select_host env rs fp w = (r, w')"
  shows "\<exists>es. trace w' = trace w @ es \<and> (\<forall>x\<in>set es. \<not> is_dispatch x)"
  using assms
  by (auto simp: rebuild_select_host_def Let_def split: sum.splits list.splits)

lemma rebuild_failed:
  assumes "\<not> truthy_str hst"
    and "rebuild_select_host env (build_request_spec env image_ref [inst] None)
           [(''ignore_hosts'', VList [of_str (host inst)])]
           (emit (EventStart ''rebuild_server'' (uuid inst)) w) = (Inl ex, wa)"
    and "isinstance env ex NoValidHost \<or> isinstance env ex UnsupportedPolicyException"
  shows "fst (rebuild_instance env inst orig_image_ref image_ref injected_files new_pass
                orig_sys_metadata bdms recreate on_shared_storage preserve_ephemeral hst w) =
           Inl ex \<and>
         trace (snd (rebuild_instance env inst orig_image_ref image_ref injected_files new_pass
                orig_sys_metadata bdms recreate on_shared_storage preserve_ephemeral hst w)) =
           trace wa @
           [SetVmStateAndNotify (uuid inst) ''compute_task'' ''rebuild_server''
              [(''vm_state'', vm_state inst), (''task_state'', None)] ex
              (build_request_spec env image_ref [inst] None),
            Log ''warning'' (if isinstance env ex NoValidHost then ''No valid host found for rebuild''
                             else ''Server with unsupported policy cannot be rebuilt''),
            EventFinish ''rebuild_server'' (uuid inst) (Some ex)]"
  using assms
  by (auto simp: rebuild_instance_def rebuild_find_host_def EventReporter_def Let_def)

lemma rebuild_scheduled:
  assumes "\<not> truthy_str hst"
    and "rebuild_select_host env (build_request_spec env image_ref [inst] None)
           [(''ignore_hosts'', VList [of_str (host inst)])]
           (emit (EventStart ''rebuild_server'' (uuid inst)) w) = (Inr h, wa)"
  shows "fst (rebuild_instance env inst orig_image_ref image_ref injected_files new_pass
                orig_sys_metadata bdms recreate on_shared_storage preserve_ephemeral hst w) =
           Inr () \<and>
         trace (snd (rebuild_instance env inst orig_image_ref image_ref injected_files new_pass
                orig_sys_metadata bdms recreate on_shared_storage preserve_ephemeral hst w)) =
           trace wa @
           [NotifyUsage inst ''rebuild.scheduled'',
            Rpc_rebuild_instance
              \<lparr>r_instance = inst, r_new_pass = new_pass, r_injected_files = injected_files,
               r_image_ref = image_ref, r_orig_image_ref = orig_image_ref,
               r_orig_sys_metadata = orig_sys_metadata, r_bdms = bdms, r_recreate = recreate,
               r_on_shared_storage = on_shared_storage,
               r_preserve_ephemeral = preserve_ephemeral, r_host = Some h\<rparr>,
            EventFinish ''rebuild_server'' (uuid inst) None]"
  using assms
  by (simp add: rebuild_instance_def rebuild_find_host_def EventReporter_def Let_def)

lemma rebuild_given_host:
  assumes "truthy_str hst"
  shows "fst (rebuild_instance env inst orig_image_ref image_ref injected_files new_pass
                orig_sys_metadata bdms recreate on_shared_storage preserve_ephemeral hst w) =
           Inr () \<and>
         trace (snd (rebuild_instance env inst orig_image_ref image_ref injected_files new_pass
                orig_sys_metadata bdms recreate on_shared_storage preserve_ephemeral hst w)) =
           trace w @
           [EventStart ''rebuild_server'' (uuid inst),
            NotifyUsage inst ''rebuild.scheduled'',
            Rpc_rebuild_instance
              \<lparr>r_instance = inst, r_new_pass = new_pass, r_injected_files = injected_files,
               r_image_ref = image_ref, r_orig_image_ref = orig_image_ref,
               r_orig_sys_metadata = orig_sys_metadata, r_bdms = bdms, r_recreate = recreate,
               r_on_shared_storage = on_shared_storage,
               r_preserve_ephemeral = preserve_ephemeral, r_host = hst\<rparr>,
            EventFinish ''rebuild_server'' (uuid inst) None]"
  using assms
  by (simp add: rebuild_instance_def rebuild_find_host_def EventReporter_def Let_def)

lemma rebuild_select_host_cases:
  "setup_instance_group env rs fp = Inr fpb \<Longrightarrow> select_destinations env rs fpb = Inr (h # hs) \<Longrightarrow>
     rebuild_select_host env rs fp w = (Inr (hs_host h), emit (SelectDestinations rs fpb) w)"
  "setup_instance_group env rs fp = Inr fpb \<Longrightarrow> select_destinations env rs fpb = Inl ex \<Longrightarrow>
     rebuild_select_host env rs fp w = (Inl ex, emit (SelectDestinations rs fpb) w)"
  "setup_instance_group env rs fp = Inl ex \<Longrightarrow>
     rebuild_select_host env rs fp w = (Inl ex, w)"
  by (simp_all add: rebuild_select_host_def Let_def)

text \<open>
  Claim C8. Let \<open>rs\<close> be the request spec of the instance, \<open>fp\<close> the filter properties
  \<^verbatim>\<open>{'ignore_hosts': [instance.host]}\<close> and \<open>ws\<close> the world once the action event has
  started. Without an explicit host, the manager schedules with \<open>fp\<close>. When that step
  raises \<open>NoValidHost\<close> or \<open>UnsupportedPolicyException\<close>, the manager asks for the
  instance's \<^verbatim>\<open>vm_state\<close> to be kept and its \<^verbatim>\<open>task_state\<close> to be \<^verbatim>\<open>None\<close>, logs
  a warning and raises the same exception; the update is in the trace the exception comes
  with, and no event of the call is a remote dispatch. When the step returns a host, and
  when a host is given, the manager notifies \<open>rebuild.scheduled\<close> and dispatches
  \<^verbatim>\<open>rebuild_instance\<close> with the original and the new image reference, the block device
  mappings and the host. The scheduling step hands \<open>fp\<close> to
  \<^verbatim>\<open>setup_instance_group\<close> and what comes back to \<^verbatim>\<open>select_destinations\<close>, and takes
  the host of the first destination.
\<close>

theorem rebuild_instance_scheduling:
  assumes rs: "rs = build_request_spec env image_ref [inst] None"
    and fp: "fp = [(''ignore_hosts'', VList [of_str (host inst)])]"
    and started: "ws = emit (EventStart ''rebuild_server'' (uuid inst)) w"
    and call: "res = rebuild_instance env inst orig_image_ref image_ref injected_files new_pass
                orig_sys_metadata bdms recreate on_shared_storage preserve_ephemeral hst w"
  shows
   "(\<not> truthy_str hst \<and> rebuild_select_host env rs fp ws = (Inl ex, wa) \<and>
     (isinstance env ex NoValidHost \<or> isinstance env ex UnsupportedPolicyException) \<longrightarrow>
       fst res = Inl ex \<and>
       trace (snd res) =
         trace wa @
         [SetVmStateAndNotify (uuid inst) ''compute_task'' ''rebuild_server''
            [(''vm_state'', vm_state inst), (''task_state'', None)] ex rs,
          Log ''warning'' (if isinstance env ex NoValidHost then ''No valid host found for rebuild''
                           else ''Server with unsupported policy cannot be rebuilt''),
          EventFinish ''rebuild_server'' (uuid inst) (Some ex)] \<and>
       (\<exists>es. trace (snd res) = trace w @ es \<and> (\<forall>x\<in>set es. \<not> is_dispatch x))) \<and>
    (\<not> truthy_str hst \<and> rebuild_select_host env rs fp ws = (Inr h, wa) \<longrightarrow>
       fst res = Inr () \<and>
       trace (snd res) =
         trace wa @
         [NotifyUsage inst ''rebuild.scheduled'',
          Rpc_rebuild_instance
            \<lparr>r_instance = inst, r_new_pass = new_pass, r_injected_files = injected_files,
             r_image_ref = image_ref, r_orig_image_ref = orig_image_ref,
             r_orig_sys_metadata = orig_sys_metadata, r_bdms = bdms, r_recreate = recreate,
             r_on_shared_storage = on_shared_storage,
             r_preserve_ephemeral = preserve_ephemeral, r_host = Some h\<rparr>,
          EventFinish ''rebuild_server'' (uuid inst) None]) \<and>
    (truthy_str hst \<longrightarrow>
       fst res = Inr () \<and>
       trace (snd res) =
         trace w @
         [EventStart ''rebuild_server'' (uuid inst),
          NotifyUsage inst ''rebuild.scheduled'',
          Rpc_rebuild_instance
            \<lparr>r_instance = inst, r_new_pass = new_pass, r_injected_files = injected_files,
             r_image_ref = image_ref, r_orig_image_ref = orig_image_ref,
             r_orig_sys_metadata = orig_sys_metadata, r_bdms = bdms, r_recreate = recreate,
             r_on_shared_storage = on_shared_storage,
             r_preserve_ephemeral = preserve_ephemeral, r_host = hst\<rparr>,
          EventFinish ''rebuild_server'' (uuid inst) None]) \<and>
    (setup_instance_group env rs fp = Inr fpb \<and>
     select_destinations env rs fpb = Inr (hsa # hs) \<longrightarrow>
       rebuild_select_host env rs fp ws =
         (Inr (hs_host hsa), emit (SelectDestinations rs fpb) ws)) \<and>
    (setup_instance_group env rs fp = Inr fpb \<and> select_destinations env rs fpb = Inl ex \<longrightarrow>
       rebuild_select_host env rs fp ws = (Inl ex, emit (SelectDestinations rs fpb) ws)) \<and>
    (setup_instance_group env rs fp = Inl ex \<longrightarrow>
       rebuild_select_host env rs fp ws = (Inl ex, ws))"
proof -
  have failed: "fst res = Inl ex \<and>
       trace (snd res) =
         trace wa @
         [SetVmStateAndNotify (uuid inst) ''compute_task'' ''rebuild_server''
            [(''vm_state'', vm_state inst), (''task_state'', None)] ex rs,
          Log ''warning'' (if isinstance env ex NoValidHost then ''No valid host found for rebuild''
                           else ''Server with unsupported policy cannot be rebuilt''),
          EventFinish ''rebuild_server'' (uuid inst) (Some ex)] \<and>
       (\<exists>es. trace (snd res) = trace w @ es \<and> (\<forall>x\<in>set es. \<not> is_dispatch x))"
    if a: "\<not> truthy_str hst \<and> rebuild_select_host env rs fp ws = (Inl ex, wa) \<and>
     (isinstance env ex NoValidHost \<or> isinstance env ex UnsupportedPolicyException)"
  proof -
    have m: "fst res = Inl ex \<and>
       trace (snd res) =
         trace wa @
         [SetVmStateAndNotify (uuid inst) ''compute_task'' ''rebuild_server''
            [(''vm_state'', vm_state inst), (''task_state'', None)] ex rs,
          Log ''warning'' (if isinstance env ex NoValidHost then ''No valid host found for rebuild''
                           else ''Server with unsupported policy cannot be rebuilt''),
          EventFinish ''rebuild_server'' (uuid inst) (Some ex)]"
      unfolding call rs
      using a unfolding rs fp started
      by (intro rebuild_failed) blast+
    from a obtain es where es: "trace wa = trace ws @ es" "\<forall>x\<in>set es. \<not> is_dispatch x"
      using rebuild_select_host_quiet by blast
    let ?all = "EventStart ''rebuild_server'' (uuid inst) # es @
         [SetVmStateAndNotify (uuid inst) ''compute_task'' ''rebuild_server''
            [(''vm_state'', vm_state inst), (''task_state'', None)] ex rs,
          Log ''warning'' (if isinstance env ex NoValidHost then ''No valid host found for rebuild''
                           else ''Server with unsupported policy cannot be rebuilt''),
          EventFinish ''rebuild_server'' (uuid inst) (Some ex)]"
    have "trace (snd res) = trace w @ ?all \<and> (\<forall>x\<in>set ?all. \<not> is_dispatch x)"
      using m es by (simp add: started)
    then have "\<exists>es. trace (snd res) = trace w @ es \<and> (\<forall>x\<in>set es. \<not> is_dispatch x)"
      by blast
    with m show ?thesis by blast
  qed
  have scheduled: "fst res = Inr () \<and>
       trace (snd res) =
         trace wa @
         [NotifyUsage inst ''rebuild.scheduled'',
          Rpc_rebuild_instance
            \<lparr>r_instance = inst, r_new_pass = new_pass, r_injected_files = injected_files,
             r_image_ref = image_ref, r_orig_image_ref = orig_image_ref,
             r_orig_sys_metadata = orig_sys_metadata, r_bdms = bdms, r_recreate = recreate,
             r_on_shared_storage = on_shared_storage,
             r_preserve_ephemeral = preserve_ephemeral, r_host = Some h\<rparr>,
          EventFinish ''rebuild_server'' (uuid inst) None]"
    if a: "\<not> truthy_str hst \<and> rebuild_select_host env rs fp ws = (Inr h, wa)"
    unfolding call
    using a unfolding rs fp started
    by (intro rebuild_scheduled) blast+
  have given: "fst res = Inr () \<and>
       trace (snd res) =
         trace w @
         [EventStart ''rebuild_server'' (uuid inst),
          NotifyUsage inst ''rebuild.scheduled'',
          Rpc_rebuild_instance
            \<lparr>r_instance = inst, r_new_pass = new_pass, r_injected_files = injected_files,
             r_image_ref = image_ref, r_orig_image_ref = orig_image_ref,
             r_orig_sys_metadata = orig_sys_metadata, r_bdms = bdms, r_recreate = recreate,
             r_on_shared_storage = on_shared_storage,
             r_preserve_ephemeral = preserve_ephemeral, r_host = hst\<rparr>,
          EventFinish ''rebuild_server'' (uuid inst) None]"
    if "truthy_str hst"
    unfolding call using that by (rule rebuild_given_host)
  from failed scheduled given rebuild_select_host_cases [of env rs fp]
  show ?thesis by blast
qed

theorem rebuild_instance_scheduling_witness:
  "fst (rebuild_instance (env_no_host (Exn NoValidHost [])) inst0 (VStr ''img-old'')
          (VStr ''img-new'') (VList []) (VStr ''pw'') (VDict []) (VList []) False False False
          None world0) = Inl (Exn NoValidHost []) \<and>
   trace (snd (rebuild_instance (env_no_host (Exn NoValidHost [])) inst0 (VStr ''img-old'')
          (VStr ''img-new'') (VList []) (VStr ''pw'') (VDict []) (VList []) False False False
          None world0)) =
     [EventStart ''rebuild_server'' ''uuid-1'',
      SelectDestinations [(''num_instances'', VInt 1)]
        [(''ignore_hosts'', VList [VStr ''src-host''])],
      SetVmStateAndNotify ''uuid-1'' ''compute_task'' ''rebuild_server''
        [(''vm_state'', Some ''active''), (''task_state'', None)] (Exn NoValidHost [])
        [(''num_instances'', VInt 1)],
      Log ''warning'' ''No valid host found for rebuild'',
      EventFinish ''rebuild_server'' ''uuid-1'' (Some (Exn NoValidHost []))] \<and>
   fst (rebuild_instance env0 inst0 (VStr ''img-old'') (VStr ''img-new'') (VList [])
          (VStr ''pw'') (VDict []) (VList []) False False False None world0) = Inr () \<and>
   trace (snd (rebuild_instance env0 inst0 (VStr ''img-old'') (VStr ''img-new'') (VList [])
          (VStr ''pw'') (VDict []) (VList []) False False False None world0)) =
     [EventStart ''rebuild_server'' ''uuid-1'',
      SelectDestinations [(''num_instances'', VInt 1)]
        [(''ignore_hosts'', VList [VStr ''src-host''])],
      NotifyUsage inst0 ''rebuild.scheduled'',
      Rpc_rebuild_instance
        \<lparr>r_instance = inst0, r_new_pass = VStr ''pw'', r_injected_files = VList [],
         r_image_ref = VStr ''img-new'', r_orig_image_ref = VStr ''img-old'',
         r_orig_sys_metadata = VDict [], r_bdms = VList [], r_recreate = False,
         r_on_shared_storage = False, r_preserve_ephemeral = False,
         r_host = Some ''host-1''\<rparr>,
      EventFinish ''rebuild_server'' ''uuid-1'' None] \<and>
   fst (rebuild_instance env0 inst0 (VStr ''img-old'') (VStr ''img-new'') (VList [])
          (VStr ''pw'') (VDict []) (VList []) False False False (Some ''given-host'') world0) =
     Inr () \<and>
   trace (snd (rebuild_instance env0 inst0 (VStr ''img-old'') (VStr ''img-new'') (VList [])
          (VStr ''pw'') (VDict []) (VList []) False False False (Some ''given-host'') world0)) =
     [EventStart ''rebuild_server'' ''uuid-1'',
      NotifyUsage inst0 ''rebuild.scheduled'',
      Rpc_rebuild_instance
        \<lparr>r_instance = inst0, r_new_pass = VStr ''pw'', r_injected_files = VList [],
         r_image_ref = VStr ''img-new'', r_orig_image_ref = VStr ''img-old'',
         r_orig_sys_metadata = VDict [], r_bdms = VList [], r_recreate = False,
         r_on_shared_storage = False, r_preserve_ephemeral = False,
         r_host = Some ''given-host''\<rparr>,
      EventFinish ''rebuild_server'' ''uuid-1'' None]"
proof -
  let ?nv = "env_no_host (Exn NoValidHost [])"
  let ?ws = "emit (EventStart ''rebuild_server'' ''uuid-1'') world0"
  let ?rs = "[(''num_instances'', VInt 1)]"
  let ?fp = "[(''ignore_hosts'', VList [VStr ''src-host''])]"
  have i [simp]: "uuid inst0 = ''uuid-1''" "host inst0 = Some ''src-host''"
    "vm_state inst0 = Some ''active''"
    by (simp_all add: inst0_def ACTIVE_def)
  have t0 [simp]: "trace world0 = []"
    by (simp add: world0_def)
  have rs [simp]: "build_request_spec ?nv (VStr ''img-new'') [inst0] None = ?rs"
    "build_request_spec env0 (VStr ''img-new'') [inst0] None = ?rs"
    by (simp_all add: env_no_host_def env0_def)
  have none [simp]: "\<not> truthy_str None" "truthy_str (Some ''given-host'')"
    by (simp_all add: truthy_str_def)
  have sel_nv: "rebuild_select_host ?nv ?rs ?fp ?ws =
      (Inl (Exn NoValidHost []), emit (SelectDestinations ?rs ?fp) ?ws)"
    by (simp add: rebuild_select_host_def env_no_host_def env0_def Let_def)
  have sel_ok: "rebuild_select_host env0 ?rs ?fp ?ws =
      (Inr ''host-1'', emit (SelectDestinations ?rs ?fp) ?ws)"
    by (simp add: rebuild_select_host_def env0_def host1_def Let_def)
  have 1: "fst (rebuild_instance ?nv inst0 (VStr ''img-old'')
          (VStr ''img-new'') (VList []) (VStr ''pw'') (VDict []) (VList []) False False False
          None world0) = Inl (Exn NoValidHost []) \<and>
     trace (snd (rebuild_instance ?nv inst0 (VStr ''img-old'')
          (VStr ''img-new'') (VList []) (VStr ''pw'') (VDict []) (VList []) False False False
          None world0)) =
     [EventStart ''rebuild_server'' ''uuid-1'',
      SelectDestinations ?rs ?fp,
      SetVmStateAndNotify ''uuid-1'' ''compute_task'' ''rebuild_server''
        [(''vm_state'', Some ''active''), (''task_state'', None)] (Exn NoValidHost []) ?rs,
      Log ''warning'' ''No valid host found for rebuild'',
      EventFinish ''rebuild_server'' ''uuid-1'' (Some (Exn NoValidHost []))]"
    using rebuild_instance_scheduling [OF refl refl refl refl, where env = ?nv and inst = inst0 and hst = None
                and image_ref = "VStr ''img-new''" and w = world0
                and ex = "Exn NoValidHost []"
                and wa = "emit (SelectDestinations ?rs ?fp) ?ws"]
          sel_nv
    by (simp add: of_str_def isinstance_def)
  have 2: "fst (rebuild_instance env0 inst0 (VStr ''img-old'') (VStr ''img-new'') (VList [])
          (VStr ''pw'') (VDict []) (VList []) False False False None world0) = Inr () \<and>
     trace (snd (rebuild_instance env0 inst0 (VStr ''img-old'') (VStr ''img-new'') (VList [])
          (VStr ''pw'') (VDict []) (VList []) False False False None world0)) =
     [EventStart ''rebuild_server'' ''uuid-1'',
      SelectDestinations ?rs ?fp,
      NotifyUsage inst0 ''rebuild.scheduled'',
      Rpc_rebuild_instance
        \<lparr>r_instance = inst0, r_new_pass = VStr ''pw'', r_injected_files = VList [],
         r_image_ref = VStr ''img-new'', r_orig_image_ref = VStr ''img-old'',
         r_orig_sys_metadata = VDict [], r_bdms = VList [], r_recreate = False,
         r_on_shared_storage = False, r_preserve_ephemeral = False,
         r_host = Some ''host-1''\<rparr>,
      EventFinish ''rebuild_server'' ''uuid-1'' None]"
    using rebuild_instance_scheduling [OF refl refl refl refl, where env = env0 and inst = inst0 and hst = None
                and image_ref = "VStr ''img-new''" and w = world0
                and h = "''host-1''"
                and wa = "emit (SelectDestinations ?rs ?fp) ?ws"]
          sel_ok
    by (simp add: of_str_def)
  have 3: "fst (rebuild_instance env0 inst0 (VStr ''img-old'') (VStr ''img-new'') (VList [])
          (VStr ''pw'') (VDict []) (VList []) False False False (Some ''given-host'') world0) =
     Inr () \<and>
     trace (snd (rebuild_instance env0 inst0 (VStr ''img-old'') (VStr ''img-new'') (VList [])
          (VStr ''pw'') (VDict []) (VList []) False False False (Some ''given-host'') world0)) =
     [EventStart ''rebuild_server'' ''uuid-1'',
      NotifyUsage inst0 ''rebuild.scheduled'',
      Rpc_rebuild_instance
        \<lparr>r_instance = inst0, r_new_pass = VStr ''pw'', r_injected_files = VList [],
         r_image_ref = VStr ''img-new'', r_orig_image_ref = VStr ''img-old'',
         r_orig_sys_metadata = VDict [], r_bdms = VList [], r_recreate = False,
         r_on_shared_storage = False, r_preserve_ephemeral = False,
         r_host = Some ''given-host''\<rparr>,
      EventFinish ''rebuild_server'' ''uuid-1'' None]"
    using rebuild_instance_scheduling [OF refl refl refl refl, where env = env0 and inst = inst0
                and hst = "Some ''given-host''" and w = world0]
    by simp
  from 1 2 3 show ?thesis by blast
qed

section \<open>Building a batch: the objects and the loop\<close>

lemma emit_store [simp]: "fp_store (emit e w) = fp_store w" "fp_next (emit e w) = fp_next w"
  by (simp_all add: emit_def)

lemma store_fields [simp]:
  "trace (store a d w) = trace w" "fp_next (store a d w) = fp_next w"
  "fp_store (store a d w) = (fp_store w)(a := d)"
  by (simp_all add: store_def)

lemma alloc_fields [simp]:
  "fst (alloc d w) = fp_next w" "trace (snd (alloc d w)) = trace w"
  "fp_next (snd (alloc d w)) = Suc (fp_next w)"
  "fp_store (snd (alloc d w)) = (fp_store w)(fp_next w := d)"
  by (simp_all add: alloc_def)

lemma set_vm_state_and_notify_store [simp]:
  "fp_store (set_vm_state_and_notify u m upd ex rs w) = fp_store w"
  "fp_next (set_vm_state_and_notify u m upd ex rs w) = fp_next w"
  by (simp_all add: set_vm_state_and_notify_def)

lemma trace_foldl_notify:
  "trace (foldl (\<lambda>w' i. set_vm_state_and_notify (uuid i) m upd exc rs w') w instances) =
     trace w @ map (\<lambda>i. SetVmStateAndNotify (uuid i) ''compute_task'' m upd exc rs) instances"
  by (induction instances arbitrary: w) simp_all

lemma select_hosts_effect:
  assumes "select_hosts env rs instances a w = (r, w')"
  shows "fp_next w' = fp_next w \<and>
         (\<exists>es. trace w' = trace w @ es \<and> (\<forall>x\<in>set es. \<not> is_dispatch x))"
  using assms
  by (auto simp: select_hosts_def Let_def split: sum.splits list.splits)

lemma normalize_instance_type_effect:
  assumes "normalize_instance_type env fp w = (r, w')"
  shows "\<exists>es. trace w' = trace w @ es \<and> (\<forall>x\<in>set es. \<not> is_dispatch x)"
  using assms
  by (auto simp: normalize_instance_type_def Let_def split: option.splits sum.splits if_splits)

lemma build_loop_effect:
  assumes "\<forall>p\<in>set ps. refresh_tolerated env (fst p)" and "a < fp_next w"
  shows "fst (build_loop env a img rs ap ifs nets sec ps w) = Inr () \<and>
         trace (snd (build_loop env a img rs ap ifs nets sec ps w)) =
           trace w @ map (expected_build_event env img rs (fp_store w a) ap ifs nets sec) ps \<and>
         fp_store (snd (build_loop env a img rs ap ifs nets sec ps w)) a = fp_store w a"
  using assms
proof (induction ps arbitrary: w)
  case Nil
  then show ?case by simp
next
  case (Cons p ps)
  obtain i h where p: "p = (i, h)" by (cases p)
  from Cons.prems have rest: "\<forall>p\<in>set ps. refresh_tolerated env (fst p)"
    and this_one: "refresh_tolerated env i"
    by (simp_all add: p)
  show ?case
  proof (cases "refresh env i")
    case (Inl e)
    with this_one have nf: "isinstance env e InstanceNotFound \<or> isinstance env e InstanceInfoCacheNotFound"
      by (simp add: refresh_tolerated_def)
    let ?w = "emit (Log ''debug'' ''Instance deleted during build'') w"
    have "a < fp_next ?w" using Cons.prems(2) by simp
    from Cons.IH [OF rest this] Inl nf show ?thesis
      by (simp add: p expected_build_event_def)
  next
    case (Inr i')
    let ?l = "fp_next w"
    let ?w1 = "snd (alloc (fp_store w a) w)"
    let ?w2 = "store ?l (populate_filter_properties env (fp_store ?w1 ?l) h) ?w1"
    let ?c = "\<lparr>b_instance = i', b_host = hs_host h, b_image = img,
             b_request_spec = rs,
             b_filter_properties = fp_store ?w2 ?l,
             b_admin_password = ap, b_injected_files = ifs,
             b_requested_networks = nets, b_security_groups = sec,
             b_block_device_mapping = bdms_get_by_instance_uuid env (uuid i'),
             b_node = hs_nodename h, b_limits = hs_limits h\<rparr>"
    let ?w3 = "emit (Rpc_build_and_run_instance ?c) ?w2"
    have step: "build_loop env a img rs ap ifs nets sec (p # ps) w =
        build_loop env a img rs ap ifs nets sec ps ?w3"
      using Inr by (simp add: p deepcopy_def Let_def split_beta)
    have ne: "a \<noteq> ?l" using Cons.prems(2) by simp
    have lt: "a < fp_next ?w3" using Cons.prems(2) by simp
    have keep: "fp_store ?w3 a = fp_store w a" using ne by simp
    have fpl: "fp_store ?w2 ?l = populate_filter_properties env (fp_store w a) h" by simp
    have ev: "Rpc_build_and_run_instance ?c = expected_build_event env img rs (fp_store w a) ap ifs nets sec p"
      using Inr by (simp add: expected_build_event_def expected_build_call_def p)
    have tr: "trace ?w3 = trace w @ [expected_build_event env img rs (fp_store w a) ap ifs nets sec p]"
      unfolding ev [symmetric] by simp
    from Cons.IH [OF rest lt] show ?thesis
      unfolding step keep tr by simp
  qed
qed


lemma notify_events_quiet:
  "\<forall>x\<in>set (map (\<lambda>i. SetVmStateAndNotify (uuid i) s m upd exc rs) instances). \<not> is_dispatch x"
  by auto

lemma select_hosts_causes:
  "setup_instance_group env rs (fp_store w a) = Inl e \<Longrightarrow>
     fst (select_hosts env rs instances a w) = Inl e"
  "setup_instance_group env rs (fp_store w a) = Inr fpa \<Longrightarrow> instances = [] \<Longrightarrow>
     fst (select_hosts env rs instances a w) = Inl (Exn IndexError [])"
  "setup_instance_group env rs (fp_store w a) = Inr fpa \<Longrightarrow> instances = i0 # others \<Longrightarrow>
   populate_retry env fpa (uuid i0) = Inl e \<Longrightarrow>
     fst (select_hosts env rs instances a w) = Inl e"
  "setup_instance_group env rs (fp_store w a) = Inr fpa \<Longrightarrow> instances = i0 # others \<Longrightarrow>
   populate_retry env fpa (uuid i0) = Inr fpb \<Longrightarrow> select_destinations env rs fpb = Inl e \<Longrightarrow>
     fst (select_hosts env rs instances a w) = Inl e"
  by (simp_all add: select_hosts_def Let_def)

lemma select_hosts_ok:
  assumes "select_hosts env rs instances a w = (Inr hosts, w')"
  shows "\<exists>fpa i0 others fpb.
           setup_instance_group env rs (fp_store w a) = Inr fpa \<and> instances = i0 # others \<and>
           populate_retry env fpa (uuid i0) = Inr fpb \<and>
           select_destinations env rs fpb = Inr hosts \<and>
           fp_store w' a = fpb \<and> trace w' = trace w @ [SelectDestinations rs fpb]"
  using assms
  by (auto simp: select_hosts_def Let_def split: sum.splits list.splits)

section \<open>Building a batch: one dispatch for each instance that is still there\<close>

text \<open>
  Claim C4. When the filter properties have been read and the hosts selected, and every
  refresh either succeeds or fails with \<open>InstanceNotFound\<close> or
  \<open>InstanceInfoCacheNotFound\<close>, \<^verbatim>\<open>build_instances\<close> returns normally and adds to the
  trace exactly one event for each pair of an instance and a host, in order: a debug line
  for an instance that is gone, and otherwise the dispatch of
  \<^verbatim>\<open>build_and_run_instance\<close> for the refreshed instance, whose filter properties are
  those of the batch, as host selection left them, annotated for this pair's host only.
  The batch's own filter properties are the same object with the same content after the
  loop: every dispatch worked on a copy. For three instances of which the second is gone,
  the events are a dispatch for the first, the debug line, and a dispatch for the third.
\<close>

theorem build_instances_dispatch:
  assumes rs: "rs = build_request_spec env img instances None"
    and norm: "normalize_instance_type env filter_properties w = (Inr fp, wa)"
    and sel: "select_hosts env rs instances (fp_next wa) (snd (alloc fp wa)) = (Inr hosts, wb)"
    and tolerated: "\<forall>i\<in>set instances. refresh_tolerated env i"
    and call: "res = build_instances env instances img filter_properties admin_password
                       injected_files requested_networks security_groups w"
  shows "fst res = Inr () \<and>
         trace (snd res) =
           trace wb @
           map (expected_build_event env img rs (fp_store wb (fp_next wa)) admin_password
                  injected_files (normalize_requested_networks env requested_networks)
                  security_groups)
             (zip instances hosts) \<and>
         fp_store (snd res) (fp_next wa) = fp_store wb (fp_next wa) \<and>
         (\<exists>fpa ia others.
            setup_instance_group env rs fp = Inr fpa \<and> instances = ia # others \<and>
            populate_retry env fpa (uuid ia) = Inr (fp_store wb (fp_next wa)) \<and>
            select_destinations env rs (fp_store wb (fp_next wa)) = Inr hosts \<and>
            trace wb = trace wa @ [SelectDestinations rs (fp_store wb (fp_next wa))]) \<and>
         (instances = [ia, ib, ic] \<and> hosts = [ha, hb, hc] \<and> refresh env ia = Inr ja \<and>
          refresh env ib = Inl e \<and> refresh env ic = Inr jc \<longrightarrow>
            trace (snd res) =
              trace wb @
              [Rpc_build_and_run_instance
                 (expected_build_call env img rs (fp_store wb (fp_next wa)) admin_password
                    injected_files (normalize_requested_networks env requested_networks)
                    security_groups ja ha),
               Log ''debug'' ''Instance deleted during build'',
               Rpc_build_and_run_instance
                 (expected_build_call env img rs (fp_store wb (fp_next wa)) admin_password
                    injected_files (normalize_requested_networks env requested_networks)
                    security_groups jc hc)])"
proof -
  have r: "res = build_loop env (fp_next wa) img rs admin_password injected_files
                   (normalize_requested_networks env requested_networks) security_groups
                   (zip instances hosts) wb"
    unfolding call build_instances_def
    using norm sel by (simp add: Let_def rs split_beta)
  have nx: "fp_next wb = Suc (fp_next wa)"
    using select_hosts_effect [OF sel] by simp
  then have lt: "fp_next wa < fp_next wb" by simp
  have tol: "\<forall>p\<in>set (zip instances hosts). refresh_tolerated env (fst p)"
    using tolerated by (auto dest: set_zip_leftD)
  have main: "fst res = Inr () \<and>
         trace (snd res) =
           trace wb @
           map (expected_build_event env img rs (fp_store wb (fp_next wa)) admin_password
                  injected_files (normalize_requested_networks env requested_networks)
                  security_groups)
             (zip instances hosts) \<and>
         fp_store (snd res) (fp_next wa) = fp_store wb (fp_next wa)"
    unfolding r using build_loop_effect [OF tol lt] by simp
  have src: "\<exists>fpa ia others.
            setup_instance_group env rs fp = Inr fpa \<and> instances = ia # others \<and>
            populate_retry env fpa (uuid ia) = Inr (fp_store wb (fp_next wa)) \<and>
            select_destinations env rs (fp_store wb (fp_next wa)) = Inr hosts \<and>
            trace wb = trace wa @ [SelectDestinations rs (fp_store wb (fp_next wa))]"
    using select_hosts_ok [OF sel] by auto
  have three: "trace (snd res) =
              trace wb @
              [Rpc_build_and_run_instance
                 (expected_build_call env img rs (fp_store wb (fp_next wa)) admin_password
                    injected_files (normalize_requested_networks env requested_networks)
                    security_groups ja ha),
               Log ''debug'' ''Instance deleted during build'',
               Rpc_build_and_run_instance
                 (expected_build_call env img rs (fp_store wb (fp_next wa)) admin_password
                    injected_files (normalize_requested_networks env requested_networks)
                    security_groups jc hc)]"
    if "instances = [ia, ib, ic] \<and> hosts = [ha, hb, hc] \<and> refresh env ia = Inr ja \<and>
          refresh env ib = Inl e \<and> refresh env ic = Inr jc"
    using main that by (simp add: expected_build_event_def)
  from main src three show ?thesis by blast
qed

theorem build_instances_dispatch_witness:
  "fst (build_instances env_vanish [inst0, inst2, inst3] (VDict []) [] VNone (VList [])
          NetworksNone (VList []) world0) = Inr () \<and>
   trace (snd (build_instances env_vanish [inst0, inst2, inst3] (VDict []) [] VNone (VList [])
          NetworksNone (VList []) world0)) =
     [SelectDestinations [(''num_instances'', VInt 3)] [(''retry'', VStr ''uuid-1'')],
      Rpc_build_and_run_instance
        \<lparr>b_instance = inst0, b_host = ''host-1'', b_image = VDict [],
         b_request_spec = [(''num_instances'', VInt 3)],
         b_filter_properties = [(''retry'', VStr ''uuid-1''), (''limits'', VDict [])],
         b_admin_password = VNone, b_injected_files = VList [],
         b_requested_networks = NetworksNone, b_security_groups = VList [],
         b_block_device_mapping = VList [], b_node = ''node-1'', b_limits = VDict []\<rparr>,
      Log ''debug'' ''Instance deleted during build'',
      Rpc_build_and_run_instance
        \<lparr>b_instance = inst3, b_host = ''host-3'', b_image = VDict [],
         b_request_spec = [(''num_instances'', VInt 3)],
         b_filter_properties =
           [(''retry'', VStr ''uuid-1''), (''limits'', VDict [(''memory_mb'', VInt 4096)])],
         b_admin_password = VNone, b_injected_files = VList [],
         b_requested_networks = NetworksNone, b_security_groups = VList [],
         b_block_device_mapping = VList [], b_node = ''node-3'',
         b_limits = VDict [(''memory_mb'', VInt 4096)]\<rparr>]"
proof -
  let ?rs = "[(''num_instances'', VInt 3)]"
  let ?fpb = "[(''retry'', VStr ''uuid-1'')]"
  let ?wb = "emit (SelectDestinations ?rs ?fpb)
               (store 0 ?fpb (store 0 [] (snd (alloc [] world0))))"
  have rs: "?rs = build_request_spec env_vanish (VDict []) [inst0, inst2, inst3] None"
    by (simp add: env_vanish_def env0_def)
  have norm: "normalize_instance_type env_vanish [] world0 = (Inr [], world0)"
    by (simp add: normalize_instance_type_def)
  have sel: "select_hosts env_vanish ?rs [inst0, inst2, inst3] (fp_next world0)
               (snd (alloc [] world0)) = (Inr [host1, host2, host3], ?wb)"
    by (simp add: select_hosts_def alloc_def store_def Let_def env_vanish_def env0_def
          world0_def inst0_def)
  have u: "uuid inst0 = ''uuid-1''" "uuid inst2 = ''uuid-2''" "uuid inst3 = ''uuid-3''"
    by (simp_all add: inst0_def inst2_def inst3_def)
  have tol: "\<forall>i\<in>set [inst0, inst2, inst3]. refresh_tolerated env_vanish i"
    by (simp add: refresh_tolerated_def env_vanish_def isinstance_def u)
  have r: "refresh env_vanish inst0 = Inr inst0"
    "refresh env_vanish inst2 = Inl (Exn InstanceNotFound [])"
    "refresh env_vanish inst3 = Inr inst3"
    by (simp_all add: env_vanish_def u)
  have nets: "normalize_requested_networks env_vanish NetworksNone = NetworksNone"
    by (simp add: normalize_requested_networks_def)
  have at: "fp_store ?wb (fp_next world0) = ?fpb" "trace ?wb = [SelectDestinations ?rs ?fpb]"
    by (simp_all add: world0_def alloc_def store_def emit_def)
  from build_instances_dispatch [OF rs norm sel tol refl, where ia = inst0 and ib = inst2 and ic = inst3
             and ha = host1 and hb = host2 and hc = host3 and ja = inst0 and jc = inst3
             and e = "Exn InstanceNotFound []" and admin_password = VNone
             and injected_files = "VList []" and requested_networks = NetworksNone
             and security_groups = "VList []"]
  have "fst (build_instances env_vanish [inst0, inst2, inst3] (VDict []) [] VNone (VList [])
          NetworksNone (VList []) world0) = Inr () \<and>
     trace (snd (build_instances env_vanish [inst0, inst2, inst3] (VDict []) [] VNone (VList [])
          NetworksNone (VList []) world0)) =
       [SelectDestinations ?rs ?fpb,
        Rpc_build_and_run_instance
          (expected_build_call env_vanish (VDict []) ?rs ?fpb VNone (VList []) NetworksNone
             (VList []) inst0 host1),
        Log ''debug'' ''Instance deleted during build'',
        Rpc_build_and_run_instance
          (expected_build_call env_vanish (VDict []) ?rs ?fpb VNone (VList []) NetworksNone
             (VList []) inst3 host3)]"
    unfolding at nets using r by (simp add: expected_build_event_def)
  then show ?thesis
    by (simp add: expected_build_call_def env_vanish_def env0_def host1_def host3_def u)
qed

section \<open>Building a batch: when no hosts can be selected\<close>

text \<open>
  Claim C5. When the selection of hosts raises, whether in \<^verbatim>\<open>setup_instance_group\<close>,
  in \<^verbatim>\<open>populate_retry\<close> (or in reading \<^verbatim>\<open>instances[0]\<close> of an empty batch) or in
  \<^verbatim>\<open>select_destinations\<close>, \<^verbatim>\<open>build_instances\<close> returns normally, having asked for
  every instance of the batch, in order, to be set to \<^verbatim>\<open>vm_state\<close> \<open>error\<close> and
  \<^verbatim>\<open>task_state\<close> \<^verbatim>\<open>None\<close> with the exception as the reason. No event of the call is
  a remote dispatch.
\<close>

theorem build_instances_selection_failure:
  assumes rs: "rs = build_request_spec env img instances None"
    and norm: "normalize_instance_type env filter_properties w = (Inr fp, wa)"
    and sel: "select_hosts env rs instances (fp_next wa) (snd (alloc fp wa)) = (Inl exc, wb)"
    and call: "res = build_instances env instances img filter_properties admin_password
                       injected_files requested_networks security_groups w"
  shows "fst res = Inr () \<and>
         trace (snd res) =
           trace wb @
           map (\<lambda>i. SetVmStateAndNotify (uuid i) ''compute_task'' ''build_instances''
                      [(''vm_state'', Some ERROR), (''task_state'', None)] exc rs) instances \<and>
         (\<exists>es. trace (snd res) = trace w @ es \<and> (\<forall>x\<in>set es. \<not> is_dispatch x)) \<and>
         (setup_instance_group env rs fp = Inl e \<longrightarrow>
            fst (select_hosts env rs instances (fp_next wa) (snd (alloc fp wa))) = Inl e) \<and>
         (setup_instance_group env rs fp = Inr fpa \<and> instances = [] \<longrightarrow>
            fst (select_hosts env rs instances (fp_next wa) (snd (alloc fp wa))) =
              Inl (Exn IndexError [])) \<and>
         (setup_instance_group env rs fp = Inr fpa \<and> instances = ia # others \<and>
          populate_retry env fpa (uuid ia) = Inl e \<longrightarrow>
            fst (select_hosts env rs instances (fp_next wa) (snd (alloc fp wa))) = Inl e) \<and>
         (setup_instance_group env rs fp = Inr fpa \<and> instances = ia # others \<and>
          populate_retry env fpa (uuid ia) = Inr fpb \<and>
          select_destinations env rs fpb = Inl e \<longrightarrow>
            fst (select_hosts env rs instances (fp_next wa) (snd (alloc fp wa))) = Inl e)"
proof -
  have at: "fp_store (snd (alloc fp wa)) (fp_next wa) = fp"
    by simp
  note causes = select_hosts_causes [of env rs "snd (alloc fp wa)" "fp_next wa", unfolded at]
  have r: "res = (Inr (),
       foldl (\<lambda>w' i. set_vm_state_and_notify (uuid i) ''build_instances''
                        [(''vm_state'', Some ERROR), (''task_state'', None)] exc rs w')
         wb instances)"
    unfolding call build_instances_def
    using norm sel by (simp add: Let_def rs split_beta)
  have tr: "trace (snd res) =
           trace wb @
           map (\<lambda>i. SetVmStateAndNotify (uuid i) ''compute_task'' ''build_instances''
                      [(''vm_state'', Some ERROR), (''task_state'', None)] exc rs) instances"
    unfolding r by (simp add: trace_foldl_notify)
  obtain es1 where 1: "trace wa = trace w @ es1" "\<forall>x\<in>set es1. \<not> is_dispatch x"
    using normalize_instance_type_effect [OF norm] by blast
  obtain es2 where 2: "trace wb = trace (snd (alloc fp wa)) @ es2" "\<forall>x\<in>set es2. \<not> is_dispatch x"
    using select_hosts_effect [OF sel] by blast
  let ?n = "map (\<lambda>i. SetVmStateAndNotify (uuid i) ''compute_task'' ''build_instances''
                      [(''vm_state'', Some ERROR), (''task_state'', None)] exc rs) instances"
  have "trace (snd res) = trace w @ (es1 @ es2 @ ?n) \<and> (\<forall>x\<in>set (es1 @ es2 @ ?n). \<not> is_dispatch x)"
    using tr 1 2 by auto
  then have "\<exists>es. trace (snd res) = trace w @ es \<and> (\<forall>x\<in>set es. \<not> is_dispatch x)"
    by blast
  with r tr causes show ?thesis by simp
qed

theorem build_instances_selection_failure_witness:
  "fst (build_instances (env_no_host (Exn NoValidHost [])) [inst0, inst2] (VDict []) []
          VNone (VList []) NetworksNone (VList []) world0) = Inr () \<and>
   trace (snd (build_instances (env_no_host (Exn NoValidHost [])) [inst0, inst2] (VDict []) []
          VNone (VList []) NetworksNone (VList []) world0)) =
     [SelectDestinations [(''num_instances'', VInt 2)] [(''retry'', VStr ''uuid-1'')],
      SetVmStateAndNotify ''uuid-1'' ''compute_task'' ''build_instances''
        [(''vm_state'', Some ''error''), (''task_state'', None)] (Exn NoValidHost [])
        [(''num_instances'', VInt 2)],
      SetVmStateAndNotify ''uuid-2'' ''compute_task'' ''build_instances''
        [(''vm_state'', Some ''error''), (''task_state'', None)] (Exn NoValidHost [])
        [(''num_instances'', VInt 2)]]"
proof -
  let ?env = "env_no_host (Exn NoValidHost [])"
  let ?rs = "[(''num_instances'', VInt 2)]"
  let ?fpb = "[(''retry'', VStr ''uuid-1'')]"
  let ?wb = "emit (SelectDestinations ?rs ?fpb)
               (store 0 ?fpb (store 0 [] (snd (alloc [] world0))))"
  have rs: "?rs = build_request_spec ?env (VDict []) [inst0, inst2] None"
    by (simp add: env_no_host_def env0_def)
  have norm: "normalize_instance_type ?env [] world0 = (Inr [], world0)"
    by (simp add: normalize_instance_type_def)
  have sel: "select_hosts ?env ?rs [inst0, inst2] (fp_next world0) (snd (alloc [] world0)) =
      (Inl (Exn NoValidHost []), ?wb)"
    by (simp add: select_hosts_def alloc_def store_def Let_def env_no_host_def env0_def
          world0_def inst0_def)
  have u: "uuid inst0 = ''uuid-1''" "uuid inst2 = ''uuid-2''"
    by (simp_all add: inst0_def inst2_def)
  from build_instances_selection_failure [OF rs norm sel refl, where admin_password = VNone
             and injected_files = "VList []" and requested_networks = NetworksNone
             and security_groups = "VList []"]
  show ?thesis
    by (simp add: u world0_def alloc_def store_def emit_def ERROR_def)
qed

end
